theory Spec2Isabelle
  imports Main "HOL-Library.Word"
begin

section \<open>Shared vocabulary of the four firmware variants\<close>

text \<open>
  The repository holds four variants of the same node firmware:
  \<^item> \<^verbatim>\<open>zigbee_switch/zigbee_switch.ino\<close> (Arduino end device, pairing state machine,
    deep sleep, pending-flag auto return),
  \<^item> \<^verbatim>\<open>H2_Zigbee_Switch/H2_Zigbee_Switch.ino\<close> (Arduino router on the low-level API),
  \<^item> \<^verbatim>\<open>legacy_esp_idf/main/main.c\<close> (ESP-IDF router with servo timer),
  \<^item> \<^verbatim>\<open>main/main.c\<close> (ESP-IDF router, no servo timer).
  Every call that leaves the program (PWM driver, timer service, network stack, LED,
  sleep hardware) is recorded as an \<open>event\<close>, appended to a log in program order, so
  that the number and the order of the commands a function issues can be stated.
\<close>

datatype cluster = ON_OFF | LEVEL_CONTROL

datatype esp_err = ESP_OK | ESP_FAIL

datatype event =
    LedcDuty int
  | TimerStop
  | TimerStartOnce nat
  | ZbLockAcquire
  | ZbLockRelease
  | ZbReportAttrReq cluster
  | ZbUpdateReportingInfo cluster
  | ZbRestoreLight
  | ZbFactoryReset
  | ZbSchedulerAlarm nat
  | RgbLedWrite nat nat nat
  | GpioWakeupEnable
  | DeepSleepStart

text \<open>
  \<open>LedcDuty d\<close> stands for the pair \<^verbatim>\<open>ledc_set_duty(.., d); ledc_update_duty(..)\<close>, the one
  position command the servo driver accepts. \<open>duty_commands\<close> reads the position
  commands off a log.
\<close>

fun duty_commands :: "event list \<Rightarrow> int list" where
  "duty_commands [] = []"
| "duty_commands (LedcDuty d # es) = d # duty_commands es"
| "duty_commands (e # es) = duty_commands es"

text \<open>The events a function appended to a log that was \<open>old\<close> before the call.\<close>

definition appended :: "event list \<Rightarrow> event list \<Rightarrow> event list" where
  "appended old new = drop (length old) new"

text \<open>The attribute reports a log holds, by cluster.\<close>

fun report_requests :: "event list \<Rightarrow> cluster list" where
  "report_requests [] = []"
| "report_requests (ZbReportAttrReq c # es) = c # report_requests es"
| "report_requests (e # es) = report_requests es"

text \<open>
  The access discipline of the network stack, read off a log. The lock is \<open>Free\<close>,
  \<open>Held\<close> (acquired, no request made yet) or \<open>Used\<close> (acquired, one request made).
  \<open>lock_run\<close> follows a log from a phase and stops with \<open>None\<close> at the first event that
  breaks the discipline: a request into the stack while the lock is not \<open>Held\<close>, an
  acquire while it is not \<open>Free\<close>, a release while it is not \<open>Used\<close>. A log is
  \<open>lock_scoped\<close> when it runs from \<open>Free\<close> back to \<open>Free\<close>: every request stands alone
  between an acquire and a release.
\<close>

datatype lock_phase = Free | Held | Used

fun lock_step :: "lock_phase \<Rightarrow> event \<Rightarrow> lock_phase option" where
  "lock_step ph ZbLockAcquire = (if ph = Free then Some Held else None)"
| "lock_step ph (ZbReportAttrReq c) = (if ph = Held then Some Used else None)"
| "lock_step ph (ZbUpdateReportingInfo c) = (if ph = Held then Some Used else None)"
| "lock_step ph ZbLockRelease = (if ph = Used then Some Free else None)"
| "lock_step ph e = Some ph"

fun lock_run :: "lock_phase \<Rightarrow> event list \<Rightarrow> lock_phase option" where
  "lock_run ph [] = Some ph"
| "lock_run ph (e # es) =
     (case lock_step ph e of None \<Rightarrow> None | Some ph' \<Rightarrow> lock_run ph' es)"

definition lock_scoped :: "event list \<Rightarrow> bool" where
  "lock_scoped es = (lock_run Free es = Some Free)"

text \<open>
  A log \<open>new\<close> continues a log \<open>old\<close> within the discipline when it keeps \<open>old\<close> as
  its beginning and what it adds is \<open>lock_scoped\<close>.
\<close>

definition extends_scoped :: "event list \<Rightarrow> event list \<Rightarrow> bool" where
  "extends_scoped old new = (take (length old) new = old \<and> lock_scoped (appended old new))"

subsection \<open>C integer division\<close>

text \<open>C's \<^verbatim>\<open>/\<close> on \<^verbatim>\<open>int\<close> truncates towards zero; HOL's \<open>div\<close> rounds down.\<close>

definition c_div :: "int \<Rightarrow> int \<Rightarrow> int" where
  "c_div a b = sgn a * sgn b * (\<bar>a\<bar> div \<bar>b\<bar>)"

subsection \<open>Angle to PWM duty\<close>

text \<open>
  \<^verbatim>\<open>int duty = SERVO_DUTY_MIN + (angle * (SERVO_DUTY_MAX - SERVO_DUTY_MIN) / 180);\<close>
  The same expression stands in \<^verbatim>\<open>servoSetAngle\<close> (both sketches), in
  \<^verbatim>\<open>servo_set_angle\<close> (legacy) and in \<^verbatim>\<open>set_servo\<close> (main), with the constants 205 and
  1024 under the names \<^verbatim>\<open>SERVO_DUTY_MIN/MAX\<close> or \<^verbatim>\<open>DUTY_AT_0_DEG/DUTY_AT_180_DEG\<close>.
  The product stays far inside a 32-bit \<^verbatim>\<open>int\<close> for every angle of magnitude below
  2.6 million, so it is computed on \<open>int\<close>.
\<close>

abbreviation SERVO_DUTY_MIN :: int where "SERVO_DUTY_MIN \<equiv> 205"
abbreviation SERVO_DUTY_MAX :: int where "SERVO_DUTY_MAX \<equiv> 1024"
abbreviation SERVO_TARGET_ANGLE :: int where "SERVO_TARGET_ANGLE \<equiv> 160"
abbreviation SERVO_REST_ANGLE :: int where "SERVO_REST_ANGLE \<equiv> 20"
abbreviation SERVO_AUTO_RETURN_MS :: nat where "SERVO_AUTO_RETURN_MS \<equiv> 2000"

definition servo_duty :: "int \<Rightarrow> int" where
  "servo_duty angle =
     SERVO_DUTY_MIN + c_div (angle * (SERVO_DUTY_MAX - SERVO_DUTY_MIN)) 180"

subsection \<open>The one-shot timer service\<close>

text \<open>
  \<^verbatim>\<open>esp_timer\<close> belongs to the platform, not to the repository. Its documented contract
  is all the firmware relies on: a created timer is idle or armed with one alarm;
  \<^verbatim>\<open>esp_timer_stop\<close> disarms it; \<^verbatim>\<open>esp_timer_start_once\<close> arms an idle timer with the
  alarm \<open>now + timeout\<close> and refuses (\<^verbatim>\<open>ESP_ERR_INVALID_STATE\<close>, alarm kept) when the
  timer is already armed. Times are microseconds since boot. A handle is \<open>None\<close> while it
  is still \<^verbatim>\<open>NULL\<close>.
\<close>

type_synonym esp_timer = "nat option"

definition esp_timer_stop :: "esp_timer \<Rightarrow> esp_timer" where
  "esp_timer_stop tm = None"

definition esp_timer_start_once :: "nat \<Rightarrow> nat \<Rightarrow> esp_timer \<Rightarrow> esp_timer" where
  "esp_timer_start_once now timeout_us tm =
     (case tm of None \<Rightarrow> Some (now + timeout_us) | Some alarm \<Rightarrow> Some alarm)"

text \<open>The alarms a handle holds armed.\<close>

definition armed_deadlines :: "esp_timer option \<Rightarrow> nat list" where
  "armed_deadlines h =
     (case h of None \<Rightarrow> [] | Some None \<Rightarrow> [] | Some (Some alarm) \<Rightarrow> [alarm])"

subsection \<open>What a call may end in\<close>

text \<open>
  \<^verbatim>\<open>esp_deep_sleep_start()\<close> and \<^verbatim>\<open>ESP.restart()\<close> do not return. A function that can
  reach one of them yields \<open>Sleeps\<close> or \<open>Restarts\<close> with the state at that moment.
\<close>

datatype 'a outcome = Continues 'a | Sleeps 'a | Restarts 'a

text \<open>The state a call ends with, however it ends.\<close>

fun final :: "'a outcome \<Rightarrow> 'a" where
  "final (Continues s) = s"
| "final (Sleeps s) = s"
| "final (Restarts s) = s"

section \<open>zigbee\_switch.ino\<close>

datatype PairingState = PAIRING_IDLE | PAIRING_IN_PROGRESS | PAIRING_FAILED

datatype ButtonAction = BUTTON_NONE | BUTTON_SHORT_PRESS | BUTTON_LONG_PRESS

datatype wakeup_cause = ESP_SLEEP_WAKEUP_UNDEFINED | ESP_SLEEP_WAKEUP_TIMER | ESP_SLEEP_WAKEUP_GPIO

abbreviation PAIRING_TIMEOUT_MS :: "32 word" where "PAIRING_TIMEOUT_MS \<equiv> 40000"
abbreviation LED_SLOW_BLINK_MS :: "32 word" where "LED_SLOW_BLINK_MS \<equiv> 500"
abbreviation LONG_PRESS_MS :: "32 word" where "LONG_PRESS_MS \<equiv> 3000"
abbreviation DEBOUNCE_MS :: "32 word" where "DEBOUNCE_MS \<equiv> 100"

text \<open>\<^verbatim>\<open>struct DeviceState\<close>; \<^verbatim>\<open>unsigned long\<close> is 32 bits wide on the target.\<close>

record DeviceState =
  pairing :: PairingState
  pairingStartTime :: "32 word"
  lastLedToggle :: "32 word"
  ledBlinkOn :: bool

text \<open>The three \<^verbatim>\<open>static\<close> locals of \<^verbatim>\<open>checkButton\<close>.\<close>

record button_statics =
  wasPressed :: bool
  pressStartTime :: "32 word"
  longPressHandled :: bool

text \<open>
  The globals of the sketch. \<open>lightState\<close> to \<open>lightBlue\<close> are the attributes the
  library object \<^verbatim>\<open>zbLight\<close> keeps (\<^verbatim>\<open>getLightState()\<close>, \<^verbatim>\<open>getLightLevel()\<close>, ...); the
  library's own dispatch of change callbacks is outside the repository and is not part
  of the model. \<open>lastPrint\<close> is the \<^verbatim>\<open>static\<close> of \<^verbatim>\<open>updatePairingState\<close>.
\<close>

record sketch =
  state :: DeviceState
  servoTimer :: "esp_timer option"
  servoAutoReturnPending :: bool
  lightState :: bool
  lightLevel :: "8 word"
  lightRed :: "8 word"
  lightGreen :: "8 word"
  lightBlue :: "8 word"
  button :: button_statics
  lastPrint :: "32 word"
  effects :: "event list"

text \<open>
  What one pass of \<^verbatim>\<open>loop()\<close> reads from outside: the clock (\<^verbatim>\<open>esp_timer_get_time()\<close>,
  of which \<^verbatim>\<open>millis()\<close> is the millisecond count truncated to 32 bits), the button pin,
  \<^verbatim>\<open>Zigbee.connected()\<close> and the code the stack returns for a request. One pass is
  modelled on one such snapshot; the \<^verbatim>\<open>delay\<close> calls inside a pass are not run.
\<close>

record env =
  now_us :: nat
  button_low :: bool
  zb_connected :: bool
  stack_ret :: esp_err

definition millis :: "env \<Rightarrow> 32 word" where
  "millis e = word_of_nat (now_us e div 1000)"

definition emit :: "event list \<Rightarrow> sketch \<Rightarrow> sketch" where
  "emit es s = s\<lparr>effects := effects s @ es\<rparr>"

definition servoSetAngle :: "int \<Rightarrow> sketch \<Rightarrow> sketch" where
  "servoSetAngle angle s = emit [LedcDuty (servo_duty angle)] s"

definition servoReturnCallback :: "sketch \<Rightarrow> sketch" where
  "servoReturnCallback s = s\<lparr>servoAutoReturnPending := True\<rparr>"

definition servoPlay :: "nat \<Rightarrow> sketch \<Rightarrow> sketch" where
  "servoPlay now s =
     (let s1 = servoSetAngle SERVO_TARGET_ANGLE s in
      case servoTimer s1 of
        None \<Rightarrow> s1
      | Some tm \<Rightarrow>
          emit [TimerStop, TimerStartOnce (SERVO_AUTO_RETURN_MS * 1000)]
            (s1\<lparr>servoTimer :=
               Some (esp_timer_start_once now (SERVO_AUTO_RETURN_MS * 1000) (esp_timer_stop tm))\<rparr>))"

definition servoRest :: "sketch \<Rightarrow> sketch" where
  "servoRest s =
     (let s1 = (case servoTimer s of
                  None \<Rightarrow> s
                | Some tm \<Rightarrow> emit [TimerStop] (s\<lparr>servoTimer := Some (esp_timer_stop tm)\<rparr>))
      in servoSetAngle SERVO_REST_ANGLE s1)"

text \<open>
  \<^verbatim>\<open>servoInit\<close>: after the PWM set-up, the rest position is commanded and the timer is
  created (idle).
\<close>

definition servoInit :: "sketch \<Rightarrow> sketch" where
  "servoInit s = (servoSetAngle SERVO_REST_ANGLE s)\<lparr>servoTimer := Some None\<rparr>"

text \<open>
  The timer task: when the armed alarm is due, the one-shot timer becomes idle and its
  callback runs.
\<close>

definition timer_expiry :: "nat \<Rightarrow> sketch \<Rightarrow> sketch" where
  "timer_expiry now s =
     (case servoTimer s of
        Some (Some alarm) \<Rightarrow>
          if alarm \<le> now then servoReturnCallback (s\<lparr>servoTimer := Some None\<rparr>) else s
      | _ \<Rightarrow> s)"

definition ledSetColor :: "nat \<Rightarrow> nat \<Rightarrow> nat \<Rightarrow> sketch \<Rightarrow> sketch" where
  "ledSetColor r g b s = emit [RgbLedWrite r g b] s"

definition ledOff :: "sketch \<Rightarrow> sketch" where
  "ledOff s = ledSetColor 0 0 0 s"

definition ledBlue :: "sketch \<Rightarrow> sketch" where
  "ledBlue s = ledSetColor 0 0 255 s"

definition ledRed :: "sketch \<Rightarrow> sketch" where
  "ledRed s = ledSetColor 255 0 0 s"

definition ledBlink :: "32 word \<Rightarrow> (sketch \<Rightarrow> sketch) \<Rightarrow> 32 word \<Rightarrow> sketch \<Rightarrow> sketch" where
  "ledBlink interval colorFunc now s =
     (if now - lastLedToggle (state s) \<ge> interval then
        (let s1 = s\<lparr>state := (state s)\<lparr>ledBlinkOn := \<not> ledBlinkOn (state s)\<rparr>\<rparr>;
             s2 = (if ledBlinkOn (state s1) then colorFunc s1 else ledOff s1)
         in s2\<lparr>state := (state s2)\<lparr>lastLedToggle := now\<rparr>\<rparr>)
      else s)"

text \<open>
  The four functions that call into the network stack. Each takes the code the stack
  returns and gives back its own \<^verbatim>\<open>bool\<close> result with the new state.
\<close>

definition setupOnOffReporting :: "esp_err \<Rightarrow> sketch \<Rightarrow> bool \<times> sketch" where
  "setupOnOffReporting ret s =
     (let s1 = emit [ZbLockAcquire] s;
          s2 = emit [ZbUpdateReportingInfo ON_OFF] s1;
          s3 = emit [ZbLockRelease] s2
      in if ret \<noteq> ESP_OK then (False, s3) else (True, s3))"

definition setupLevelReporting :: "esp_err \<Rightarrow> sketch \<Rightarrow> bool \<times> sketch" where
  "setupLevelReporting ret s =
     (let s1 = emit [ZbLockAcquire] s;
          s2 = emit [ZbUpdateReportingInfo LEVEL_CONTROL] s1;
          s3 = emit [ZbLockRelease] s2
      in if ret \<noteq> ESP_OK then (False, s3) else (True, s3))"

definition setupReporting :: "env \<Rightarrow> sketch \<Rightarrow> sketch" where
  "setupReporting e s =
     snd (setupLevelReporting (stack_ret e) (snd (setupOnOffReporting (stack_ret e) s)))"

definition reportOnOff :: "esp_err \<Rightarrow> sketch \<Rightarrow> bool \<times> sketch" where
  "reportOnOff ret s =
     (let s1 = emit [ZbLockAcquire] s;
          s2 = emit [ZbReportAttrReq ON_OFF] s1;
          s3 = emit [ZbLockRelease] s2
      in if ret \<noteq> ESP_OK then (False, s3) else (True, s3))"

definition reportLevel :: "esp_err \<Rightarrow> sketch \<Rightarrow> bool \<times> sketch" where
  "reportLevel ret s =
     (let s1 = emit [ZbLockAcquire] s;
          s2 = emit [ZbReportAttrReq LEVEL_CONTROL] s1;
          s3 = emit [ZbLockRelease] s2
      in if ret \<noteq> ESP_OK then (False, s3) else (True, s3))"

definition reportLightState :: "env \<Rightarrow> sketch \<Rightarrow> sketch" where
  "reportLightState e s =
     (if \<not> zb_connected e then s
      else snd (reportLevel (stack_ret e) (snd (reportOnOff (stack_ret e) s))))"

definition turnLightOn :: "env \<Rightarrow> sketch \<Rightarrow> sketch" where
  "turnLightOn e s =
     (let level = (if lightLevel s = 0 then 255 else lightLevel s);
          dark = (lightRed s = 0 \<and> lightGreen s = 0 \<and> lightBlue s = 0);
          r = (if dark then 255 else lightRed s);
          g = (if dark then 255 else lightGreen s);
          b = (if dark then 255 else lightBlue s);
          s1 = s\<lparr>lightState := True, lightLevel := level,
                  lightRed := r, lightGreen := g, lightBlue := b\<rparr>;
          s2 = servoPlay (now_us e) s1
      in reportLightState e s2)"

definition turnLightOff :: "env \<Rightarrow> sketch \<Rightarrow> sketch" where
  "turnLightOff e s =
     (let s1 = s\<lparr>lightState := False\<rparr>;
          s2 = ledOff s1;
          s3 = servoRest s2
      in reportLightState e s3)"

definition toggleLight :: "env \<Rightarrow> sketch \<Rightarrow> sketch" where
  "toggleLight e s = (if lightState s then turnLightOff e s else turnLightOn e s)"

definition checkButton :: "bool \<Rightarrow> 32 word \<Rightarrow> button_statics \<Rightarrow> ButtonAction \<times> button_statics" where
  "checkButton isPressed now b =
     (if isPressed \<and> \<not> wasPressed b then
        (BUTTON_NONE, b\<lparr>pressStartTime := now, longPressHandled := False, wasPressed := True\<rparr>)
      else if isPressed \<and> wasPressed b then
        (if \<not> longPressHandled b \<and> now - pressStartTime b > LONG_PRESS_MS
         then (BUTTON_LONG_PRESS, b\<lparr>longPressHandled := True\<rparr>)
         else (BUTTON_NONE, b))
      else if \<not> isPressed \<and> wasPressed b then
        (let b1 = b\<lparr>wasPressed := False\<rparr> in
         if \<not> longPressHandled b1 \<and> now - pressStartTime b1 > DEBOUNCE_MS
         then (BUTTON_SHORT_PRESS, b1)
         else (BUTTON_NONE, b1))
      else (BUTTON_NONE, b))"

text \<open>
  The button polled over and over: \<open>poll_all b ps\<close> lists what \<^verbatim>\<open>checkButton\<close> returns
  when it finds, pass after pass, the pin readings and clock values \<open>ps\<close>. An
  \<open>episode\<close> is one press from the first reading that finds the button down, at \<open>t0\<close>,
  through the readings that find it still down, \<open>ds\<close> milliseconds later each, to the
  reading that finds it up again, \<open>r\<close> milliseconds after \<open>t0\<close>.
\<close>

fun poll_all :: "button_statics \<Rightarrow> (bool \<times> 32 word) list \<Rightarrow> ButtonAction list" where
  "poll_all b [] = []"
| "poll_all b ((isPressed, now) # ps) =
     fst (checkButton isPressed now b) # poll_all (snd (checkButton isPressed now b)) ps"

definition episode :: "32 word \<Rightarrow> 32 word list \<Rightarrow> 32 word \<Rightarrow> (bool \<times> 32 word) list" where
  "episode t0 ds r = (True, t0) # map (\<lambda>d. (True, t0 + d)) ds @ [(False, t0 + r)]"

definition handleButton :: "ButtonAction \<Rightarrow> env \<Rightarrow> sketch \<Rightarrow> sketch" where
  "handleButton action e s =
     (case action of
        BUTTON_SHORT_PRESS \<Rightarrow> toggleLight e s
      | BUTTON_LONG_PRESS \<Rightarrow> emit [ZbFactoryReset] (ledRed s)
      | BUTTON_NONE \<Rightarrow> s)"

definition enterDeepSleep :: "sketch \<Rightarrow> sketch" where
  "enterDeepSleep s = emit [GpioWakeupEnable, DeepSleepStart] (servoRest (ledOff s))"

definition updatePairingState :: "env \<Rightarrow> sketch \<Rightarrow> sketch outcome" where
  "updatePairingState e s =
     (let connected = zb_connected e;
          elapsed = millis e - pairingStartTime (state s)
      in case pairing (state s) of
           PAIRING_IDLE \<Rightarrow>
             if \<not> connected
             then Continues (s\<lparr>state := (state s)\<lparr>pairing := PAIRING_IN_PROGRESS,
                                                   pairingStartTime := millis e\<rparr>\<rparr>)
             else Continues s
         | PAIRING_IN_PROGRESS \<Rightarrow>
             if connected then
               (let s1 = s\<lparr>state := (state s)\<lparr>pairing := PAIRING_IDLE\<rparr>\<rparr>;
                    s2 = setupReporting e s1;
                    s3 = emit [ZbRestoreLight] s2
                in Continues (reportLightState e s3))
             else if elapsed > PAIRING_TIMEOUT_MS then
               Continues (s\<lparr>state := (state s)\<lparr>pairing := PAIRING_FAILED\<rparr>\<rparr>)
             else
               (let s1 = ledBlink LED_SLOW_BLINK_MS ledBlue (millis e) s
                in Continues (if millis e - lastPrint s1 > 1000
                              then s1\<lparr>lastPrint := millis e\<rparr> else s1))
         | PAIRING_FAILED \<Rightarrow> Sleeps (enterDeepSleep (ledRed s)))"

text \<open>Step 1 of \<^verbatim>\<open>loop()\<close>: the consumer of the flag the timer callback raises.\<close>

definition loop_autoReturn :: "env \<Rightarrow> sketch \<Rightarrow> sketch" where
  "loop_autoReturn e s =
     (if servoAutoReturnPending s
      then turnLightOff e (s\<lparr>servoAutoReturnPending := False\<rparr>)
      else s)"

text \<open>Step 2 of \<^verbatim>\<open>loop()\<close>: poll the button and act on what it reports.\<close>

definition loop_button :: "env \<Rightarrow> sketch \<Rightarrow> sketch" where
  "loop_button e s =
     (let (action, b) = checkButton (button_low e) (millis e) (button s);
          s1 = s\<lparr>button := b\<rparr>
      in if action \<noteq> BUTTON_NONE then handleButton action e s1 else s1)"

definition loop :: "env \<Rightarrow> sketch \<Rightarrow> sketch outcome" where
  "loop e s = updatePairingState e (loop_button e (loop_autoReturn e s))"

text \<open>
  \<^verbatim>\<open>handleWakeup\<close>. The \<^verbatim>\<open>while\<close> loop reads the pin once per round (\<open>low i\<close> is the
  \<open>i\<close>-th reading), waits 50 ms and compares the time held with the threshold. It
  answers \<open>True\<close> when it returns from inside (long press) and \<open>False\<close> when the pin
  reads high. The clock is milliseconds since boot; the loop runs in the first seconds
  after a wake-up, where the unsigned difference is the plain difference.
\<close>

function wake_hold_loop :: "(nat \<Rightarrow> bool) \<Rightarrow> nat \<Rightarrow> nat \<Rightarrow> nat \<Rightarrow> bool" where
  "wake_hold_loop low i pressStart now =
     (if low i then
        (if (now + 50) - pressStart > 3000 then True
         else wake_hold_loop low (Suc i) pressStart (now + 50))
      else False)"
  by pat_completeness auto
termination
  by (relation "measure (\<lambda>(low, i, pressStart, now). pressStart + 3001 - now)") auto

declare wake_hold_loop.simps [simp del]

definition handleWakeup :: "wakeup_cause \<Rightarrow> (nat \<Rightarrow> bool) \<Rightarrow> nat \<Rightarrow> sketch \<Rightarrow> (bool \<times> sketch) outcome" where
  "handleWakeup reason low now_ms s =
     (if reason = ESP_SLEEP_WAKEUP_GPIO then
        (if wake_hold_loop low 0 now_ms now_ms then Continues (True, s)
         else Sleeps (True, enterDeepSleep s))
      else Continues (True, s))"

text \<open>
  \<^verbatim>\<open>setup()\<close>, from the hardware set-up to the initial pairing state (the name
  \<open>setup\<close> is taken in Isabelle). \<open>begin_ok\<close> is the result of \<^verbatim>\<open>Zigbee.begin()\<close>.
\<close>

definition setup_sketch :: "wakeup_cause \<Rightarrow> (nat \<Rightarrow> bool) \<Rightarrow> nat \<Rightarrow> bool \<Rightarrow> env \<Rightarrow> sketch \<Rightarrow> sketch outcome" where
  "setup_sketch reason low now_ms begin_ok e s =
     (let s1 = servoInit (ledOff s) in
      case handleWakeup reason low now_ms s1 of
        Sleeps (r, s2) \<Rightarrow> Sleeps s2
      | Restarts (r, s2) \<Rightarrow> Restarts s2
      | Continues (r, s2) \<Rightarrow>
          if \<not> r then Continues s2
          else if \<not> begin_ok then Restarts s2
          else
            (let s3 = s2\<lparr>state := (state s2)\<lparr>pairingStartTime := millis e\<rparr>\<rparr> in
             if zb_connected e then
               (let s4 = s3\<lparr>state := (state s3)\<lparr>pairing := PAIRING_IDLE\<rparr>\<rparr>
                in Continues (reportLightState e (setupReporting e s4)))
             else Continues (s3\<lparr>state := (state s3)\<lparr>pairing := PAIRING_IN_PROGRESS\<rparr>\<rparr>)))"

text \<open>
  The pairing states a device passes through when \<^verbatim>\<open>updatePairingState\<close> is run once
  per pass on the snapshots \<open>es\<close>: the state after each pass, up to the pass that ends
  in deep sleep.
\<close>

fun pairing_trace :: "sketch \<Rightarrow> env list \<Rightarrow> PairingState list" where
  "pairing_trace s [] = []"
| "pairing_trace s (e # es) =
     (case updatePairingState e s of
        Continues s' \<Rightarrow> pairing (state s') # pairing_trace s' es
      | Sleeps s' \<Rightarrow> []
      | Restarts s' \<Rightarrow> [])"

text \<open>
  The globals as their initialisers leave them at power-on. The light attributes are the
  library object's: off, full level, white.
\<close>

definition power_on :: sketch where
  "power_on =
     \<lparr>state = \<lparr>pairing = PAIRING_IDLE, pairingStartTime = 0, lastLedToggle = 0,
               ledBlinkOn = False\<rparr>,
      servoTimer = None, servoAutoReturnPending = False,
      lightState = False, lightLevel = 255, lightRed = 255, lightGreen = 255,
      lightBlue = 255,
      button = \<lparr>wasPressed = False, pressStartTime = 0, longPressHandled = False\<rparr>,
      lastPrint = 0, effects = []\<rparr>"

text \<open>Two values for examples: a sketch that is seeking, and what a pass reads at
  \<open>ms\<close> milliseconds after boot with the button up and the node not joined.\<close>

definition seeking_sketch :: sketch where
  "seeking_sketch = power_on\<lparr>state := (state power_on)\<lparr>pairing := PAIRING_IN_PROGRESS\<rparr>\<rparr>"

definition unjoined_at :: "nat \<Rightarrow> env" where
  "unjoined_at ms =
     \<lparr>now_us = ms * 1000, button_low = False, zb_connected = False, stack_ret = ESP_OK\<rparr>"

section \<open>legacy\_esp\_idf/main/main.c\<close>

datatype led_state_t = LED_OFF | LED_PAIRING | LED_CONNECTED | LED_ERROR | LED_RESET_WARN

abbreviation BUTTON_LONG_PRESS_MS :: int where "BUTTON_LONG_PRESS_MS \<equiv> 3000"

text \<open>
  The globals of the legacy firmware and the three locals that \<^verbatim>\<open>button_task\<close> keeps
  across the rounds of its \<^verbatim>\<open>while (1)\<close>.
\<close>

record legacy =
  g_zigbee_connected :: bool
  g_servo_at_target :: bool
  g_servo_timer :: "esp_timer option"
  g_led_state :: led_state_t
  btn_pressed :: bool
  press_start_ms :: int
  long_press_handled :: bool
  l_effects :: "event list"

definition l_emit :: "event list \<Rightarrow> legacy \<Rightarrow> legacy" where
  "l_emit es s = s\<lparr>l_effects := l_effects s @ es\<rparr>"

definition servo_set_angle :: "int \<Rightarrow> legacy \<Rightarrow> legacy" where
  "servo_set_angle angle s = l_emit [LedcDuty (servo_duty angle)] s"

definition servo_return_callback :: "legacy \<Rightarrow> legacy" where
  "servo_return_callback s = (servo_set_angle SERVO_REST_ANGLE s)\<lparr>g_servo_at_target := False\<rparr>"

definition servo_cancel_timer :: "legacy \<Rightarrow> legacy" where
  "servo_cancel_timer s =
     (case g_servo_timer s of
        None \<Rightarrow> s
      | Some tm \<Rightarrow> l_emit [TimerStop] (s\<lparr>g_servo_timer := Some (esp_timer_stop tm)\<rparr>))"

definition servo_start_timer :: "nat \<Rightarrow> legacy \<Rightarrow> legacy" where
  "servo_start_timer now s =
     (case g_servo_timer s of
        None \<Rightarrow> s
      | Some tm \<Rightarrow>
          l_emit [TimerStop, TimerStartOnce (SERVO_AUTO_RETURN_MS * 1000)]
            (s\<lparr>g_servo_timer :=
               Some (esp_timer_start_once now (SERVO_AUTO_RETURN_MS * 1000) (esp_timer_stop tm))\<rparr>))"

definition servo_play :: "nat \<Rightarrow> legacy \<Rightarrow> legacy" where
  "servo_play now s =
     servo_start_timer now ((servo_set_angle SERVO_TARGET_ANGLE s)\<lparr>g_servo_at_target := True\<rparr>)"

definition servo_rest :: "legacy \<Rightarrow> legacy" where
  "servo_rest s =
     (servo_set_angle SERVO_REST_ANGLE (servo_cancel_timer s))\<lparr>g_servo_at_target := False\<rparr>"

definition servo_toggle :: "nat \<Rightarrow> legacy \<Rightarrow> legacy" where
  "servo_toggle now s = (if g_servo_at_target s then servo_rest s else servo_play now s)"

definition report_attribute :: "legacy \<Rightarrow> legacy" where
  "report_attribute s = l_emit [ZbReportAttrReq ON_OFF] s"

text \<open>
  One round of \<^verbatim>\<open>button_task\<close>. \<open>low\<close> is the pin reading that opens the round
  (\<^verbatim>\<open>level == 0\<close>), \<open>low2\<close> the reading after the debounce wait, \<open>now\<close> the value of
  \<^verbatim>\<open>esp_timer_get_time()\<close> at the one place the taken branch reads it.
\<close>

definition button_task :: "bool \<Rightarrow> bool \<Rightarrow> nat \<Rightarrow> legacy \<Rightarrow> legacy" where
  "button_task low low2 now s =
     (let now_ms = int (now div 1000) in
      if low \<and> \<not> btn_pressed s then
        (if low2
         then s\<lparr>btn_pressed := True, press_start_ms := now_ms, long_press_handled := False\<rparr>
         else s)
      else if low \<and> btn_pressed s \<and> \<not> long_press_handled s then
        (let hold_time = now_ms - press_start_ms s in
         if hold_time > BUTTON_LONG_PRESS_MS
         then s\<lparr>g_led_state := LED_RESET_WARN, long_press_handled := True\<rparr>
         else s)
      else if \<not> low \<and> btn_pressed s then
        (if \<not> low2 then
           (let s1 = (if long_press_handled s then l_emit [ZbFactoryReset] s
                      else (let s2 = servo_toggle now s in
                            if g_zigbee_connected s2 then report_attribute s2 else s2))
            in s1\<lparr>btn_pressed := False, press_start_ms := 0, long_press_handled := False\<rparr>)
         else s)
      else s)"

text \<open>The timer task of the legacy firmware.\<close>

definition legacy_timer_expiry :: "nat \<Rightarrow> legacy \<Rightarrow> legacy" where
  "legacy_timer_expiry now s =
     (case g_servo_timer s of
        Some (Some alarm) \<Rightarrow>
          if alarm \<le> now then servo_return_callback (s\<lparr>g_servo_timer := Some None\<rparr>) else s
      | _ \<Rightarrow> s)"

text \<open>The globals after \<^verbatim>\<open>app_main\<close> has created the servo timer.\<close>

definition legacy_booted :: legacy where
  "legacy_booted =
     \<lparr>g_zigbee_connected = False, g_servo_at_target = False, g_servo_timer = Some None,
      g_led_state = LED_OFF, btn_pressed = False, press_start_ms = 0,
      long_press_handled = False, l_effects = []\<rparr>"

section \<open>H2\_Zigbee\_Switch.ino\<close>

record h2 =
  g_servoAtTarget :: bool
  g_servoTimer :: "esp_timer option"
  h_effects :: "event list"

definition h2_emit :: "event list \<Rightarrow> h2 \<Rightarrow> h2" where
  "h2_emit es s = s\<lparr>h_effects := h_effects s @ es\<rparr>"

definition h2_servoSetAngle :: "int \<Rightarrow> h2 \<Rightarrow> h2" where
  "h2_servoSetAngle angle s = h2_emit [LedcDuty (servo_duty angle)] s"

definition h2_servoReturnCallback :: "h2 \<Rightarrow> h2" where
  "h2_servoReturnCallback s = (h2_servoSetAngle SERVO_REST_ANGLE s)\<lparr>g_servoAtTarget := False\<rparr>"

definition h2_servoPlay :: "nat \<Rightarrow> h2 \<Rightarrow> h2" where
  "h2_servoPlay now s =
     (let s1 = (h2_servoSetAngle SERVO_TARGET_ANGLE s)\<lparr>g_servoAtTarget := True\<rparr> in
      case g_servoTimer s1 of
        None \<Rightarrow> s1
      | Some tm \<Rightarrow>
          h2_emit [TimerStop, TimerStartOnce (SERVO_AUTO_RETURN_MS * 1000)]
            (s1\<lparr>g_servoTimer :=
               Some (esp_timer_start_once now (SERVO_AUTO_RETURN_MS * 1000) (esp_timer_stop tm))\<rparr>))"

definition h2_servoRest :: "h2 \<Rightarrow> h2" where
  "h2_servoRest s =
     (let s1 = (case g_servoTimer s of
                  None \<Rightarrow> s
                | Some tm \<Rightarrow> h2_emit [TimerStop] (s\<lparr>g_servoTimer := Some (esp_timer_stop tm)\<rparr>))
      in (h2_servoSetAngle SERVO_REST_ANGLE s1)\<lparr>g_servoAtTarget := False\<rparr>)"

definition h2_booted :: h2 where
  "h2_booted = \<lparr>g_servoAtTarget = False, g_servoTimer = Some None, h_effects = []\<rparr>"

section \<open>main/main.c\<close>

text \<open>
  This variant has no servo timer; its target angle is 180. \<open>last_low\<close> is
  \<^verbatim>\<open>last_level == 0\<close>; \<open>press_start\<close> and \<open>handled\<close> are the other two locals of its
  \<^verbatim>\<open>button_task\<close>.
\<close>

record mainfw =
  m_zigbee_connected :: bool
  g_servo_state :: bool
  m_led_state :: led_state_t
  last_low :: bool
  press_start :: int
  handled :: bool
  m_effects :: "event list"

definition m_emit :: "event list \<Rightarrow> mainfw \<Rightarrow> mainfw" where
  "m_emit es s = s\<lparr>m_effects := m_effects s @ es\<rparr>"

definition set_servo :: "bool \<Rightarrow> mainfw \<Rightarrow> mainfw" where
  "set_servo on s =
     (let angle = (if on then 180 else SERVO_REST_ANGLE) in
      (m_emit [LedcDuty (servo_duty angle)] s)\<lparr>g_servo_state := on\<rparr>)"

definition main_report_attribute :: "mainfw \<Rightarrow> mainfw" where
  "main_report_attribute s = m_emit [ZbReportAttrReq ON_OFF] s"

text \<open>
  One round of this variant's \<^verbatim>\<open>button_task\<close>: three \<^verbatim>\<open>if\<close> statements in a row.
  \<open>low\<close> is the reading that opens the round, \<open>low2\<close> the reading after the debounce
  wait, \<open>t1\<close> and \<open>t2\<close> the millisecond clock where the press branch and the holding
  branch read it.
\<close>

definition main_button_task :: "bool \<Rightarrow> bool \<Rightarrow> int \<Rightarrow> int \<Rightarrow> mainfw \<Rightarrow> mainfw" where
  "main_button_task low low2 t1 t2 s =
     (let s1 = (if \<not> last_low s \<and> low then
                  (if low2 then s\<lparr>press_start := t1, handled := False\<rparr> else s)
                else s);
          s2 = (if low \<and> \<not> handled s1 then
                  (if t2 - press_start s1 > BUTTON_LONG_PRESS_MS
                   then s1\<lparr>m_led_state := LED_RESET_WARN, handled := True\<rparr>
                   else s1)
                else s1);
          s3 = (if last_low s2 \<and> \<not> low then
                  (if handled s2 then m_emit [ZbFactoryReset] s2
                   else if press_start s2 > 0
                     then main_report_attribute (set_servo (\<not> g_servo_state s2) s2)
                     else s2)\<lparr>press_start := 0\<rparr>
                else s2)
      in s3\<lparr>last_low := low\<rparr>)"

text \<open>\<^verbatim>\<open>esp_zb_app_signal_handler\<close>, case \<^verbatim>\<open>ESP_ZB_BDB_SIGNAL_STEERING\<close>.\<close>

definition signal_steering :: "esp_err \<Rightarrow> mainfw \<Rightarrow> mainfw" where
  "signal_steering err_status s =
     (if err_status = ESP_OK
      then s\<lparr>m_led_state := LED_CONNECTED, m_zigbee_connected := True\<rparr>
      else m_emit [ZbSchedulerAlarm 1000] s)"

definition main_booted :: mainfw where
  "main_booted =
     \<lparr>m_zigbee_connected = False, g_servo_state = False, m_led_state = LED_OFF,
      last_low = False, press_start = 0, handled = False, m_effects = []\<rparr>"

section \<open>The PWM duty of an angle\<close>

lemma c_div_nonneg: "0 \<le> a \<Longrightarrow> 0 < b \<Longrightarrow> c_div a b = a div b"
  by (cases "a = 0") (simp_all add: c_div_def)

lemma servo_duty_floor: "0 \<le> a \<Longrightarrow> servo_duty a = 205 + (a * 819) div 180"
  by (simp add: servo_duty_def c_div_nonneg)

lemma servo_duty_rest: "servo_duty 20 = 296"
  by (simp add: servo_duty_floor)

lemma servo_duty_target: "servo_duty 160 = 933"
  by (simp add: servo_duty_floor)

text \<open>
  The arithmetic of the duty expression on its own: exact value, range and monotonicity
  for angles between 0 and 180.
\<close>

lemma servo_duty_in_range:
  "0 \<le> a \<Longrightarrow> a \<le> b \<Longrightarrow> b \<le> 180 \<Longrightarrow>
     servo_duty a = 205 + (a * (1024 - 205)) div 180 \<and>
     205 \<le> servo_duty a \<and> servo_duty a \<le> 1024 \<and>
     servo_duty a \<le> servo_duty b"
proof -
  assume a0: "0 \<le> a" and ab: "a \<le> b" and b180: "b \<le> 180"
  have b0: "0 \<le> b" using a0 ab by simp
  have exact: "servo_duty a = 205 + (a * (1024 - 205)) div 180"
    using a0 by (simp add: servo_duty_floor)
  have lo: "0 \<le> (a * 819) div 180"
    using a0 by (simp add: pos_imp_zdiv_nonneg_iff)
  have "a * 819 \<le> 180 * 819" using ab b180 by simp
  then have "(a * 819) div 180 \<le> (180 * 819) div 180"
    by (rule zdiv_mono1) simp
  then have hi: "(a * 819) div 180 \<le> 819" by simp
  have "a * 819 \<le> b * 819" using ab by simp
  then have mono: "(a * 819) div 180 \<le> (b * 819) div 180"
    by (rule zdiv_mono1) simp
  show ?thesis
    using exact lo hi mono a0 b0 by (simp add: servo_duty_floor)
qed

text \<open>What each variant's position command hands to the PWM driver.\<close>

lemma servoSetAngle_command:
  "appended (effects s) (effects (servoSetAngle a s)) = [LedcDuty (servo_duty a)]"
  by (simp add: servoSetAngle_def emit_def appended_def)

lemma servo_set_angle_command:
  "appended (l_effects l) (l_effects (servo_set_angle a l)) = [LedcDuty (servo_duty a)]"
  by (simp add: servo_set_angle_def l_emit_def appended_def)

lemma h2_servoSetAngle_command:
  "appended (h_effects h) (h_effects (h2_servoSetAngle a h)) = [LedcDuty (servo_duty a)]"
  by (simp add: h2_servoSetAngle_def h2_emit_def appended_def)

lemma set_servo_command:
  "appended (m_effects m) (m_effects (set_servo on m))
     = [LedcDuty (servo_duty (if on then 180 else 20))]"
  by (simp add: set_servo_def m_emit_def appended_def Let_def)

text \<open>
  C10. For every angle \<open>a\<close> with \<open>0 \<le> a \<le> 180\<close> the servo position command of each
  variant (\<^verbatim>\<open>servoSetAngle\<close> of both sketches, \<^verbatim>\<open>servo_set_angle\<close> of the legacy
  firmware) hands exactly one duty to the PWM driver, and that duty is
  \<open>205 + a * (1024 - 205) / 180\<close> in exact integer arithmetic (truncation and floor
  agree there). \<^verbatim>\<open>set_servo\<close> of \<^verbatim>\<open>main/main.c\<close> commands the same expression at its
  two angles, 180 and 20, that is 1024 and 296. The duty commanded lies in
  \<open>[205, 1024]\<close> and is monotonically non-decreasing: for a larger angle \<open>b\<close> in the
  range the command never carries a smaller duty.
\<close>

theorem servo_duty_exact_bounded_monotone:
  "0 \<le> a \<Longrightarrow> a \<le> b \<Longrightarrow> b \<le> 180 \<Longrightarrow>
     appended (effects s) (effects (servoSetAngle a s))
       = [LedcDuty (205 + (a * (1024 - 205)) div 180)] \<and>
     appended (l_effects l) (l_effects (servo_set_angle a l))
       = [LedcDuty (205 + (a * (1024 - 205)) div 180)] \<and>
     appended (h_effects h) (h_effects (h2_servoSetAngle a h))
       = [LedcDuty (205 + (a * (1024 - 205)) div 180)] \<and>
     appended (m_effects m) (m_effects (set_servo on m))
       = [LedcDuty (if on then 1024 else 296)] \<and>
     duty_commands (appended (effects s) (effects (servoSetAngle a s))) = [servo_duty a] \<and>
     duty_commands (appended (effects s) (effects (servoSetAngle b s))) = [servo_duty b] \<and>
     duty_commands (appended (l_effects l) (l_effects (servo_set_angle a l))) = [servo_duty a] \<and>
     duty_commands (appended (l_effects l) (l_effects (servo_set_angle b l))) = [servo_duty b] \<and>
     duty_commands (appended (h_effects h) (h_effects (h2_servoSetAngle a h))) = [servo_duty a] \<and>
     duty_commands (appended (h_effects h) (h_effects (h2_servoSetAngle b h))) = [servo_duty b] \<and>
     servo_duty a = 205 + (a * (1024 - 205)) div 180 \<and>
     205 \<le> servo_duty a \<and> servo_duty a \<le> 1024 \<and>
     servo_duty a \<le> servo_duty b"
proof -
  assume a0: "0 \<le> a" and ab: "a \<le> b" and b180: "b \<le> 180"
  note arith = servo_duty_in_range [OF a0 ab b180]
  have exact: "servo_duty a = 205 + (a * (1024 - 205)) div 180"
    using arith by simp
  have sketch: "appended (effects s) (effects (servoSetAngle a s))
      = [LedcDuty (205 + (a * (1024 - 205)) div 180)]"
    unfolding servoSetAngle_command exact by simp
  have legacy: "appended (l_effects l) (l_effects (servo_set_angle a l))
      = [LedcDuty (205 + (a * (1024 - 205)) div 180)]"
    unfolding servo_set_angle_command exact by simp
  have h2: "appended (h_effects h) (h_effects (h2_servoSetAngle a h))
      = [LedcDuty (205 + (a * (1024 - 205)) div 180)]"
    unfolding h2_servoSetAngle_command exact by simp
  have main: "appended (m_effects m) (m_effects (set_servo on m))
      = [LedcDuty (if on then 1024 else 296)]"
    unfolding set_servo_command by (simp add: servo_duty_floor)
  have cmds:
    "duty_commands (appended (effects s) (effects (servoSetAngle a s))) = [servo_duty a]"
    "duty_commands (appended (effects s) (effects (servoSetAngle b s))) = [servo_duty b]"
    "duty_commands (appended (l_effects l) (l_effects (servo_set_angle a l))) = [servo_duty a]"
    "duty_commands (appended (l_effects l) (l_effects (servo_set_angle b l))) = [servo_duty b]"
    "duty_commands (appended (h_effects h) (h_effects (h2_servoSetAngle a h))) = [servo_duty a]"
    "duty_commands (appended (h_effects h) (h_effects (h2_servoSetAngle b h))) = [servo_duty b]"
    by (simp_all add: servoSetAngle_command servo_set_angle_command h2_servoSetAngle_command)
  show ?thesis
    by (intro conjI sketch legacy h2 main cmds arith [THEN conjunct1]
        arith [THEN conjunct2, THEN conjunct1]
        arith [THEN conjunct2, THEN conjunct2, THEN conjunct1]
        arith [THEN conjunct2, THEN conjunct2, THEN conjunct2])
qed

text \<open>
  An instance: the rest angle 20 and the target angle 160 on the freshly started
  variants. Each position command carries the duty 296 for the rest angle, and the
  target angle gets the larger duty 933.
\<close>

theorem servo_duty_exact_bounded_monotone_witness:
  "appended (effects power_on) (effects (servoSetAngle 20 power_on)) = [LedcDuty 296] \<and>
   appended (l_effects legacy_booted) (l_effects (servo_set_angle 20 legacy_booted))
     = [LedcDuty 296] \<and>
   appended (h_effects h2_booted) (h_effects (h2_servoSetAngle 20 h2_booted))
     = [LedcDuty 296] \<and>
   appended (m_effects main_booted) (m_effects (set_servo True main_booted))
     = [LedcDuty 1024] \<and>
   duty_commands (appended (effects power_on) (effects (servoSetAngle 160 power_on)))
     = [servo_duty 160] \<and>
   servo_duty 20 = 296 \<and> servo_duty 160 = 933 \<and>
   205 \<le> servo_duty 20 \<and> servo_duty 20 \<le> 1024 \<and>
   servo_duty 20 \<le> servo_duty 160"
proof -
  have h: "(0::int) \<le> 20" "(20::int) \<le> 160" "(160::int) \<le> 180" by simp_all
  note t = servo_duty_exact_bounded_monotone [OF h, of power_on legacy_booted h2_booted
      main_booted True]
  have r: "servo_duty 20 = 296" "servo_duty 160 = 933"
    by (simp_all add: servo_duty_floor)
  show ?thesis using t r by simp
qed

section \<open>Reading the logs\<close>

lemma duty_commands_append: "duty_commands (xs @ ys) = duty_commands xs @ duty_commands ys"
  by (induction xs rule: duty_commands.induct) simp_all

lemma appended_append: "appended xs (xs @ ys) = ys"
  by (simp add: appended_def)

lemmas timer_defs = esp_timer_stop_def esp_timer_start_once_def armed_deadlines_def

lemmas servo_defs = Let_def emit_def servoSetAngle_def servoPlay_def servoRest_def servoInit_def

lemmas legacy_servo_defs = Let_def l_emit_def servo_set_angle_def servo_return_callback_def
  servo_cancel_timer_def servo_start_timer_def servo_play_def servo_rest_def servo_toggle_def

lemmas h2_servo_defs = Let_def h2_emit_def h2_servoSetAngle_def h2_servoReturnCallback_def
  h2_servoPlay_def h2_servoRest_def

section \<open>The actuator commands of zigbee\_switch.ino\<close>

lemma effects_servoRest:
  "effects (servoRest s) =
     effects s @ (if servoTimer s = None then [] else [TimerStop]) @ [LedcDuty 296]"
  by (simp add: servo_defs servo_duty_rest split: option.splits)

lemma effects_servoPlay:
  "effects (servoPlay now s) =
     effects s @ LedcDuty 933 #
       (if servoTimer s = None then [] else [TimerStop, TimerStartOnce 2000000])"
  by (simp add: servo_defs servo_duty_target split: option.splits)

lemma servoTimer_servoRest:
  "servoTimer (servoRest s) = map_option (\<lambda>tm. None) (servoTimer s)"
  by (simp add: servo_defs timer_defs split: option.splits)

lemma servoTimer_servoPlay:
  "servoTimer (servoPlay now s) = map_option (\<lambda>tm. Some (now + 2000000)) (servoTimer s)"
  by (simp add: servo_defs timer_defs split: option.splits)

lemma effects_reportLightState:
  "effects (reportLightState e s) =
     effects s @
       (if zb_connected e
        then [ZbLockAcquire, ZbReportAttrReq ON_OFF, ZbLockRelease,
              ZbLockAcquire, ZbReportAttrReq LEVEL_CONTROL, ZbLockRelease]
        else [])"
  by (simp add: reportLightState_def reportOnOff_def reportLevel_def emit_def Let_def)

lemma servoTimer_reportLightState: "servoTimer (reportLightState e s) = servoTimer s"
  by (simp add: reportLightState_def reportOnOff_def reportLevel_def emit_def Let_def)

lemma servoTimer_turnLightOff:
  "servoTimer (turnLightOff e s) = map_option (\<lambda>tm. None) (servoTimer s)"
  by (simp add: turnLightOff_def Let_def servoTimer_reportLightState servoTimer_servoRest
      ledOff_def ledSetColor_def emit_def)

lemma servoTimer_turnLightOn:
  "servoTimer (turnLightOn e s) = map_option (\<lambda>tm. Some (now_us e + 2000000)) (servoTimer s)"
  by (simp add: turnLightOn_def Let_def servoTimer_reportLightState servoTimer_servoPlay)

lemma effects_turnLightOff:
  "effects (turnLightOff e s) =
     effects s @ [RgbLedWrite 0 0 0] @ (if servoTimer s = None then [] else [TimerStop]) @
       [LedcDuty 296] @
       (if zb_connected e
        then [ZbLockAcquire, ZbReportAttrReq ON_OFF, ZbLockRelease,
              ZbLockAcquire, ZbReportAttrReq LEVEL_CONTROL, ZbLockRelease]
        else [])"
  by (simp add: turnLightOff_def Let_def effects_reportLightState effects_servoRest
      ledOff_def ledSetColor_def emit_def)

lemma effects_turnLightOn:
  "effects (turnLightOn e s) =
     effects s @ LedcDuty 933 #
       (if servoTimer s = None then [] else [TimerStop, TimerStartOnce 2000000]) @
       (if zb_connected e
        then [ZbLockAcquire, ZbReportAttrReq ON_OFF, ZbLockRelease,
              ZbLockAcquire, ZbReportAttrReq LEVEL_CONTROL, ZbLockRelease]
        else [])"
  by (simp add: turnLightOn_def Let_def effects_reportLightState effects_servoPlay)

lemma timer_expiry_servoRest: "timer_expiry t (servoRest s) = servoRest s"
  by (simp add: timer_expiry_def servoTimer_servoRest split: option.splits)

lemma timer_expiry_servoPlay:
  "timer_expiry t (servoPlay now s) =
     (if servoTimer s = None \<or> t < now + 2000000 then servoPlay now s
      else (servoPlay now s)\<lparr>servoTimer := Some None, servoAutoReturnPending := True\<rparr>)"
  by (auto simp add: timer_expiry_def servoTimer_servoPlay servoReturnCallback_def
      split: option.splits)

section \<open>The actuator commands of the legacy firmware and of the H2 sketch\<close>

lemma l_effects_servo_rest:
  "l_effects (servo_rest l) =
     l_effects l @ (if g_servo_timer l = None then [] else [TimerStop]) @ [LedcDuty 296]"
  by (simp add: legacy_servo_defs servo_duty_rest split: option.splits)

lemma l_effects_servo_play:
  "l_effects (servo_play now l) =
     l_effects l @ LedcDuty 933 #
       (if g_servo_timer l = None then [] else [TimerStop, TimerStartOnce 2000000])"
  by (simp add: legacy_servo_defs servo_duty_target split: option.splits)

lemma g_servo_timer_servo_rest:
  "g_servo_timer (servo_rest l) = map_option (\<lambda>tm. None) (g_servo_timer l)"
  by (simp add: legacy_servo_defs timer_defs split: option.splits)

lemma g_servo_timer_servo_play:
  "g_servo_timer (servo_play now l) =
     map_option (\<lambda>tm. Some (now + 2000000)) (g_servo_timer l)"
  by (simp add: legacy_servo_defs timer_defs split: option.splits)

lemma g_servo_at_target_servo_play: "g_servo_at_target (servo_play now l)"
  by (simp add: legacy_servo_defs split: option.splits)

lemma g_servo_at_target_servo_rest: "\<not> g_servo_at_target (servo_rest l)"
  by (simp add: legacy_servo_defs split: option.splits)

section \<open>C1: what the timer callback does\<close>

text \<open>
  C1, as stated, fails. The claim names three callbacks. The ones of the legacy
  firmware and of the H2 sketch command the servo themselves: run on the freshly booted
  globals, each issues the rest duty 296.
\<close>

theorem callback_commands_servo_in_legacy_and_h2:
  "duty_commands (l_effects (servo_return_callback legacy_booted)) = [296] \<and>
   duty_commands (h_effects (h2_servoReturnCallback h2_booted)) = [296]"
  by (simp add: legacy_servo_defs h2_servo_defs legacy_booted_def h2_booted_def servo_duty_rest)

text \<open>
  C1, amended. In \<^verbatim>\<open>zigbee_switch.ino\<close> the callback changes nothing but the flag
  \<open>servoAutoReturnPending\<close>, which it sets: no event is issued and the timer handle is
  untouched. The release happens in the main loop: its first step finds the flag, clears
  it and runs \<^verbatim>\<open>turnLightOff\<close>, which issues the one rest command. In the legacy firmware
  and in the H2 sketch there is no flag: the callback itself commands the rest duty and
  clears the at-target flag.
\<close>

theorem callback_only_raises_flag_in_sketch:
  "servoReturnCallback s = s\<lparr>servoAutoReturnPending := True\<rparr> \<and>
   effects (servoReturnCallback s) = effects s \<and>
   servoTimer (servoReturnCallback s) = servoTimer s \<and>
   loop_autoReturn e (servoReturnCallback s) =
     turnLightOff e (s\<lparr>servoAutoReturnPending := False\<rparr>) \<and>
   servoAutoReturnPending (loop_autoReturn e (servoReturnCallback s)) = False \<and>
   duty_commands (appended (effects s) (effects (loop_autoReturn e (servoReturnCallback s))))
     = [296] \<and>
   l_effects (servo_return_callback l) = l_effects l @ [LedcDuty 296] \<and>
   g_servo_at_target (servo_return_callback l) = False \<and>
   h_effects (h2_servoReturnCallback h) = h_effects h @ [LedcDuty 296] \<and>
   g_servoAtTarget (h2_servoReturnCallback h) = False"
proof -
  have flag: "servoReturnCallback s = s\<lparr>servoAutoReturnPending := True\<rparr>"
    by (simp add: servoReturnCallback_def)
  have consumed:
    "loop_autoReturn e (servoReturnCallback s) =
       turnLightOff e (s\<lparr>servoAutoReturnPending := False\<rparr>)"
    by (simp add: servoReturnCallback_def loop_autoReturn_def)
  have cleared: "servoAutoReturnPending (turnLightOff e (s\<lparr>servoAutoReturnPending := False\<rparr>)) = False"
    by (simp add: turnLightOff_def reportLightState_def reportOnOff_def reportLevel_def
        servo_defs ledOff_def ledSetColor_def split: option.splits)
  have one: "duty_commands (appended (effects s)
      (effects (turnLightOff e (s\<lparr>servoAutoReturnPending := False\<rparr>)))) = [296]"
    by (simp add: effects_turnLightOff appended_append duty_commands_append)
  have leg: "l_effects (servo_return_callback l) = l_effects l @ [LedcDuty 296]"
    "g_servo_at_target (servo_return_callback l) = False"
    by (simp_all add: legacy_servo_defs servo_duty_rest)
  have h2: "h_effects (h2_servoReturnCallback h) = h_effects h @ [LedcDuty 296]"
    "g_servoAtTarget (h2_servoReturnCallback h) = False"
    by (simp_all add: h2_servo_defs servo_duty_rest)
  show ?thesis
    unfolding consumed using flag cleared one leg h2 by simp
qed

section \<open>C2: one deadline at a time\<close>

text \<open>
  C2, as stated, fails in one point: a press does not cancel the old deadline before
  doing anything else. With a deadline armed (by a press at time 0), a second press at
  0.5 s first commands the servo and only then stops and restarts the timer.
\<close>

theorem press_commands_servo_before_cancelling:
  "armed_deadlines (servoTimer (servoPlay 0 (servoInit power_on))) = [2000000] \<and>
   appended (effects (servoPlay 0 (servoInit power_on)))
     (effects (servoPlay 500000 (servoPlay 0 (servoInit power_on))))
     = [LedcDuty 933, TimerStop, TimerStartOnce 2000000]"
  by (simp add: effects_servoPlay servoTimer_servoPlay appended_def armed_deadlines_def
      servoInit_def)

text \<open>
  C2, amended. After a press the only armed deadline is the fresh one, two seconds after
  the press, whatever was armed before (none when the timer was never created); after a
  release none is armed; a toggle is one or the other. So at most one deadline is armed
  after every command and an older one never survives it. A release stops the timer
  before it commands the servo; a press commands the servo first and then stops and
  restarts the timer. The legacy firmware behaves the same.
\<close>

theorem at_most_one_fresh_deadline:
  "armed_deadlines (servoTimer (servoPlay now s))
     = (if servoTimer s = None then [] else [now + 2000000]) \<and>
   armed_deadlines (servoTimer (servoRest s)) = [] \<and>
   armed_deadlines (servoTimer (toggleLight e s))
     = (if lightState s \<or> servoTimer s = None then [] else [now_us e + 2000000]) \<and>
   length (armed_deadlines (servoTimer (toggleLight e s))) \<le> 1 \<and>
   appended (effects s) (effects (servoRest s))
     = (if servoTimer s = None then [] else [TimerStop]) @ [LedcDuty 296] \<and>
   appended (effects s) (effects (servoPlay now s))
     = LedcDuty 933 # (if servoTimer s = None then [] else [TimerStop, TimerStartOnce 2000000]) \<and>
   armed_deadlines (g_servo_timer (servo_play now l))
     = (if g_servo_timer l = None then [] else [now + 2000000]) \<and>
   armed_deadlines (g_servo_timer (servo_rest l)) = [] \<and>
   armed_deadlines (g_servo_timer (servo_toggle now l))
     = (if g_servo_at_target l \<or> g_servo_timer l = None then [] else [now + 2000000]) \<and>
   appended (l_effects l) (l_effects (servo_rest l))
     = (if g_servo_timer l = None then [] else [TimerStop]) @ [LedcDuty 296] \<and>
   appended (l_effects l) (l_effects (servo_play now l))
     = LedcDuty 933 # (if g_servo_timer l = None then [] else [TimerStop, TimerStartOnce 2000000])"
proof -
  have play: "armed_deadlines (servoTimer (servoPlay now s))
     = (if servoTimer s = None then [] else [now + 2000000])"
    by (cases "servoTimer s") (simp_all add: servoTimer_servoPlay armed_deadlines_def)
  have rest: "armed_deadlines (servoTimer (servoRest s)) = []"
    by (cases "servoTimer s") (simp_all add: servoTimer_servoRest armed_deadlines_def)
  have toggle: "armed_deadlines (servoTimer (toggleLight e s))
     = (if lightState s \<or> servoTimer s = None then [] else [now_us e + 2000000])"
    by (cases "servoTimer s")
      (simp_all add: toggleLight_def servoTimer_turnLightOff servoTimer_turnLightOn
        armed_deadlines_def)
  have toggle_len: "length (armed_deadlines (servoTimer (toggleLight e s))) \<le> 1"
    unfolding toggle by simp
  have rest_order: "appended (effects s) (effects (servoRest s))
     = (if servoTimer s = None then [] else [TimerStop]) @ [LedcDuty 296]"
    by (simp add: effects_servoRest appended_append)
  have play_order: "appended (effects s) (effects (servoPlay now s))
     = LedcDuty 933 # (if servoTimer s = None then [] else [TimerStop, TimerStartOnce 2000000])"
    by (simp add: effects_servoPlay appended_append)
  have l_play: "armed_deadlines (g_servo_timer (servo_play now l))
     = (if g_servo_timer l = None then [] else [now + 2000000])"
    by (cases "g_servo_timer l") (simp_all add: g_servo_timer_servo_play armed_deadlines_def)
  have l_rest: "armed_deadlines (g_servo_timer (servo_rest l)) = []"
    by (cases "g_servo_timer l") (simp_all add: g_servo_timer_servo_rest armed_deadlines_def)
  have l_toggle: "armed_deadlines (g_servo_timer (servo_toggle now l))
     = (if g_servo_at_target l \<or> g_servo_timer l = None then [] else [now + 2000000])"
    using l_play l_rest by (simp add: servo_toggle_def)
  have l_rest_order: "appended (l_effects l) (l_effects (servo_rest l))
     = (if g_servo_timer l = None then [] else [TimerStop]) @ [LedcDuty 296]"
    by (simp add: l_effects_servo_rest appended_append)
  have l_play_order: "appended (l_effects l) (l_effects (servo_play now l))
     = LedcDuty 933 # (if g_servo_timer l = None then [] else [TimerStop, TimerStartOnce 2000000])"
    by (simp add: l_effects_servo_play appended_append)
  show ?thesis
    by (intro conjI play rest toggle toggle_len rest_order play_order l_play l_rest l_toggle
        l_rest_order l_play_order)
qed

section \<open>C3: releasing twice\<close>

text \<open>
  C3, as stated, fails. Two releases in a row issue two position commands: after boot
  (servo initialised, timer created) the log gains the rest duty twice.
\<close>

theorem release_twice_commands_twice:
  "duty_commands (appended (effects (servoInit power_on))
     (effects (servoRest (servoRest (servoInit power_on))))) = [296, 296] \<and>
   duty_commands (appended (l_effects legacy_booted)
     (l_effects (servo_rest (servo_rest legacy_booted)))) = [296, 296]"
  by (simp add: effects_servoRest servoTimer_servoRest l_effects_servo_rest
      g_servo_timer_servo_rest appended_def servoInit_def legacy_booted_def)

text \<open>
  C3, amended. A release is idempotent on the controller's state: the second of two
  releases in a row changes nothing but the log (timer still disarmed, position still
  rest). It is not silent: every release issues one rest command to the driver, with
  the same duty, so two releases in a row issue two. The legacy firmware behaves the
  same.
\<close>

theorem release_idempotent_on_state_only:
  "servoRest (servoRest s)
     = emit ((if servoTimer s = None then [] else [TimerStop]) @ [LedcDuty 296]) (servoRest s) \<and>
   armed_deadlines (servoTimer (servoRest (servoRest s))) = [] \<and>
   duty_commands (appended (effects (servoRest s)) (effects (servoRest (servoRest s)))) = [296] \<and>
   duty_commands (appended (effects s) (effects (servoRest (servoRest s)))) = [296, 296] \<and>
   servo_rest (servo_rest l)
     = l_emit ((if g_servo_timer l = None then [] else [TimerStop]) @ [LedcDuty 296]) (servo_rest l) \<and>
   g_servo_at_target (servo_rest (servo_rest l)) = False \<and>
   duty_commands (appended (l_effects (servo_rest l)) (l_effects (servo_rest (servo_rest l)))) = [296] \<and>
   duty_commands (appended (l_effects l) (l_effects (servo_rest (servo_rest l)))) = [296, 296]"
proof -
  have again: "servoRest (servoRest s)
     = emit ((if servoTimer s = None then [] else [TimerStop]) @ [LedcDuty 296]) (servoRest s)"
    by (cases "servoTimer s") (simp_all add: servo_defs timer_defs servo_duty_rest)
  have disarmed: "armed_deadlines (servoTimer (servoRest (servoRest s))) = []"
    by (cases "servoTimer s") (simp_all add: servoTimer_servoRest armed_deadlines_def)
  have second: "duty_commands (appended (effects (servoRest s))
      (effects (servoRest (servoRest s)))) = [296]"
    unfolding again by (simp add: emit_def appended_append duty_commands_append)
  have both: "duty_commands (appended (effects s) (effects (servoRest (servoRest s))))
      = [296, 296]"
    unfolding again
    by (simp add: emit_def effects_servoRest appended_append duty_commands_append)
  have l_again: "servo_rest (servo_rest l)
     = l_emit ((if g_servo_timer l = None then [] else [TimerStop]) @ [LedcDuty 296]) (servo_rest l)"
    by (cases "g_servo_timer l") (simp_all add: legacy_servo_defs timer_defs servo_duty_rest)
  have l_pos: "g_servo_at_target (servo_rest (servo_rest l)) = False"
    by (simp add: g_servo_at_target_servo_rest)
  have l_second: "duty_commands (appended (l_effects (servo_rest l))
      (l_effects (servo_rest (servo_rest l)))) = [296]"
    unfolding l_again by (simp add: l_emit_def appended_append duty_commands_append)
  have l_both: "duty_commands (appended (l_effects l) (l_effects (servo_rest (servo_rest l))))
      = [296, 296]"
    unfolding l_again
    by (simp add: l_emit_def l_effects_servo_rest appended_append duty_commands_append)
  show ?thesis
    by (intro conjI again disarmed second both l_again l_pos l_second l_both)
qed

section \<open>C4: pressing twice\<close>

text \<open>
  C4, as stated, fails. The second of two presses in a row, made while the servo is
  already at the target and its deadline is armed, commands the driver again.
\<close>

theorem press_twice_commands_twice:
  "armed_deadlines (servoTimer (servoPlay 0 (servoInit power_on))) = [2000000] \<and>
   duty_commands (appended (effects (servoPlay 0 (servoInit power_on)))
     (effects (servoPlay 500000 (servoPlay 0 (servoInit power_on))))) = [933] \<and>
   g_servo_at_target (servo_play 0 legacy_booted) \<and>
   duty_commands (appended (l_effects (servo_play 0 legacy_booted))
     (l_effects (servo_play 500000 (servo_play 0 legacy_booted)))) = [933]"
  by (simp add: effects_servoPlay servoTimer_servoPlay l_effects_servo_play
      g_servo_timer_servo_play g_servo_at_target_servo_play appended_def armed_deadlines_def
      servoInit_def legacy_booted_def)

text \<open>
  C4, amended. Two presses in a row, at \<open>t1\<close> and \<open>t2\<close>, leave the deadline re-armed to
  the fresh \<open>t2 + 2000 ms\<close> (when the timer exists), and the second press issues the
  target position command again, although the position did not change: every press
  commands the driver once. The legacy firmware behaves the same.
\<close>

theorem press_twice_rearms_and_recommands:
  "armed_deadlines (servoTimer (servoPlay t2 (servoPlay t1 s)))
     = (if servoTimer s = None then [] else [t2 + 2000000]) \<and>
   appended (effects (servoPlay t1 s)) (effects (servoPlay t2 (servoPlay t1 s)))
     = LedcDuty 933 # (if servoTimer s = None then [] else [TimerStop, TimerStartOnce 2000000]) \<and>
   duty_commands (appended (effects (servoPlay t1 s)) (effects (servoPlay t2 (servoPlay t1 s))))
     = [933] \<and>
   armed_deadlines (g_servo_timer (servo_play t2 (servo_play t1 l)))
     = (if g_servo_timer l = None then [] else [t2 + 2000000]) \<and>
   g_servo_at_target (servo_play t1 l) \<and>
   duty_commands (appended (l_effects (servo_play t1 l))
     (l_effects (servo_play t2 (servo_play t1 l)))) = [933]"
proof -
  have rearmed: "armed_deadlines (servoTimer (servoPlay t2 (servoPlay t1 s)))
     = (if servoTimer s = None then [] else [t2 + 2000000])"
    by (cases "servoTimer s") (simp_all add: servoTimer_servoPlay armed_deadlines_def)
  have order: "appended (effects (servoPlay t1 s)) (effects (servoPlay t2 (servoPlay t1 s)))
     = LedcDuty 933 # (if servoTimer s = None then [] else [TimerStop, TimerStartOnce 2000000])"
    by (cases "servoTimer s")
      (simp_all add: effects_servoPlay [of t2] servoTimer_servoPlay appended_append)
  have again: "duty_commands (appended (effects (servoPlay t1 s))
      (effects (servoPlay t2 (servoPlay t1 s)))) = [933]"
    unfolding order by simp
  have l_rearmed: "armed_deadlines (g_servo_timer (servo_play t2 (servo_play t1 l)))
     = (if g_servo_timer l = None then [] else [t2 + 2000000])"
    by (cases "g_servo_timer l") (simp_all add: g_servo_timer_servo_play armed_deadlines_def)
  have l_again: "duty_commands (appended (l_effects (servo_play t1 l))
      (l_effects (servo_play t2 (servo_play t1 l)))) = [933]"
    by (cases "g_servo_timer l")
      (simp_all add: l_effects_servo_play [of t2] g_servo_timer_servo_play appended_append)
  show ?thesis
    by (intro conjI rearmed order again l_rearmed g_servo_at_target_servo_play l_again)
qed

section \<open>C9: a tap toggles, and reports when joined\<close>

lemma report_requests_append:
  "report_requests (xs @ ys) = report_requests xs @ report_requests ys"
  by (induction xs rule: report_requests.induct) simp_all

lemma lightState_reportLightState: "lightState (reportLightState e s) = lightState s"
  by (simp add: reportLightState_def reportOnOff_def reportLevel_def emit_def Let_def)

lemma lightState_toggleLight: "lightState (toggleLight e s) = (\<not> lightState s)"
  by (cases "servoTimer s")
    (simp_all add: toggleLight_def turnLightOn_def turnLightOff_def lightState_reportLightState
      servo_defs ledOff_def ledSetColor_def)

lemma effects_toggleLight:
  "appended (effects s) (effects (toggleLight e s)) =
     (if lightState s
      then [RgbLedWrite 0 0 0] @ (if servoTimer s = None then [] else [TimerStop]) @
           [LedcDuty 296]
      else LedcDuty 933 #
           (if servoTimer s = None then [] else [TimerStop, TimerStartOnce 2000000])) @
     (if zb_connected e
      then [ZbLockAcquire, ZbReportAttrReq ON_OFF, ZbLockRelease,
            ZbLockAcquire, ZbReportAttrReq LEVEL_CONTROL, ZbLockRelease]
      else [])"
  by (simp add: toggleLight_def effects_turnLightOff effects_turnLightOn appended_append)

lemma button_task_tap:
  "btn_pressed l \<Longrightarrow> \<not> long_press_handled l \<Longrightarrow>
   button_task False False now l =
     (let l2 = servo_toggle now l in
      if g_zigbee_connected l2 then report_attribute l2 else l2)
       \<lparr>btn_pressed := False, press_start_ms := 0, long_press_handled := False\<rparr>"
  by (simp add: button_task_def Let_def)

lemma g_zigbee_connected_servo_toggle:
  "g_zigbee_connected (servo_toggle now l) = g_zigbee_connected l"
  by (simp add: legacy_servo_defs split: option.splits)

lemma g_servo_at_target_servo_toggle:
  "g_servo_at_target (servo_toggle now l) = (\<not> g_servo_at_target l)"
  by (simp add: servo_toggle_def g_servo_at_target_servo_play g_servo_at_target_servo_rest)

lemma l_effects_servo_toggle:
  "l_effects (servo_toggle now l) =
     l_effects l @
       (if g_servo_at_target l
        then (if g_servo_timer l = None then [] else [TimerStop]) @ [LedcDuty 296]
        else LedcDuty 933 #
             (if g_servo_timer l = None then [] else [TimerStop, TimerStartOnce 2000000]))"
  by (simp add: servo_toggle_def l_effects_servo_play l_effects_servo_rest)

text \<open>
  The poll step of the sketch's \<^verbatim>\<open>loop()\<close> ties the classifier to the toggle: when the
  button, down before and not yet reported as a long press, reads up more than
  \<open>DEBOUNCE_MS\<close> after the press began, \<^verbatim>\<open>checkButton\<close> returns the short press and the
  step is \<^verbatim>\<open>toggleLight\<close> on the state with the button marked up. With no press
  pending and the button up, the step changes nothing.
\<close>

lemma loop_button_tap:
  "wasPressed (button s) \<Longrightarrow> \<not> longPressHandled (button s) \<Longrightarrow> \<not> button_low e \<Longrightarrow>
   millis e - pressStartTime (button s) > DEBOUNCE_MS \<Longrightarrow>
   loop_button e s = toggleLight e (s\<lparr>button := (button s)\<lparr>wasPressed := False\<rparr>\<rparr>)"
  by (simp add: loop_button_def checkButton_def handleButton_def Let_def)

lemma loop_button_idle:
  "\<not> wasPressed (button s) \<Longrightarrow> \<not> button_low e \<Longrightarrow> loop_button e s = s"
  by (simp add: loop_button_def checkButton_def Let_def)

lemma loop_button_tap_effects:
  "wasPressed (button s) \<Longrightarrow> \<not> longPressHandled (button s) \<Longrightarrow> \<not> button_low e \<Longrightarrow>
   millis e - pressStartTime (button s) > DEBOUNCE_MS \<Longrightarrow>
   lightState (loop_button e s) = (\<not> lightState s) \<and>
   duty_commands (appended (effects s) (effects (loop_button e s)))
     = [if lightState s then 296 else 933] \<and>
   report_requests (appended (effects s) (effects (loop_button e s)))
     = (if zb_connected e then [ON_OFF, LEVEL_CONTROL] else [])"
proof -
  assume a: "wasPressed (button s)" "\<not> longPressHandled (button s)" "\<not> button_low e"
    "millis e - pressStartTime (button s) > DEBOUNCE_MS"
  let ?s = "s\<lparr>button := (button s)\<lparr>wasPressed := False\<rparr>\<rparr>"
  have eq: "loop_button e s = toggleLight e ?s"
    using a by (rule loop_button_tap)
  have log: "appended (effects s) (effects (toggleLight e ?s))
      = appended (effects ?s) (effects (toggleLight e ?s))"
    by simp
  show ?thesis
    unfolding eq log effects_toggleLight
    by (simp add: lightState_toggleLight duty_commands_append report_requests_append)
qed

text \<open>
  On the sketch and on the legacy firmware a tap does what is asked. In
  \<^verbatim>\<open>zigbee_switch.ino\<close> the coordinator hands a short press to \<^verbatim>\<open>toggleLight\<close>: the
  light state flips, the servo gets one command (rest duty when the light was on,
  target duty when it was off), and the attribute reports (on/off, then level) are sent
  exactly when the node is connected. In the legacy firmware a confirmed release of a
  press that was not a long press flips the servo position with one command and sends
  the on/off report exactly when \<open>g_zigbee_connected\<close> holds. Without a connection the
  actuator is still toggled and no report is sent.
\<close>

theorem tap_toggles_and_reports_iff_joined:
  "btn_pressed l \<Longrightarrow> \<not> long_press_handled l \<Longrightarrow>
   handleButton BUTTON_SHORT_PRESS e s = toggleLight e s \<and>
   lightState (handleButton BUTTON_SHORT_PRESS e s) = (\<not> lightState s) \<and>
   duty_commands (appended (effects s) (effects (handleButton BUTTON_SHORT_PRESS e s)))
     = [if lightState s then 296 else 933] \<and>
   report_requests (appended (effects s) (effects (handleButton BUTTON_SHORT_PRESS e s)))
     = (if zb_connected e then [ON_OFF, LEVEL_CONTROL] else []) \<and>
   g_servo_at_target (button_task False False now l) = (\<not> g_servo_at_target l) \<and>
   duty_commands (appended (l_effects l) (l_effects (button_task False False now l)))
     = [if g_servo_at_target l then 296 else 933] \<and>
   report_requests (appended (l_effects l) (l_effects (button_task False False now l)))
     = (if g_zigbee_connected l then [ON_OFF] else [])"
proof -
  assume pressed: "btn_pressed l" and short: "\<not> long_press_handled l"
  have hb: "handleButton BUTTON_SHORT_PRESS e s = toggleLight e s"
    by (simp add: handleButton_def)
  have duty: "duty_commands (appended (effects s) (effects (toggleLight e s)))
     = [if lightState s then 296 else 933]"
    unfolding effects_toggleLight by (simp add: duty_commands_append)
  have reps: "report_requests (appended (effects s) (effects (toggleLight e s)))
     = (if zb_connected e then [ON_OFF, LEVEL_CONTROL] else [])"
    unfolding effects_toggleLight by (simp add: report_requests_append)
  note tap = button_task_tap [OF pressed short, of now]
  have l_pos: "g_servo_at_target (button_task False False now l) = (\<not> g_servo_at_target l)"
    unfolding tap
    by (simp add: Let_def report_attribute_def l_emit_def g_servo_at_target_servo_toggle)
  have l_log: "l_effects (button_task False False now l) =
     l_effects (servo_toggle now l) @ (if g_zigbee_connected l then [ZbReportAttrReq ON_OFF] else [])"
    unfolding tap
    by (simp add: Let_def report_attribute_def l_emit_def g_zigbee_connected_servo_toggle)
  have l_duty: "duty_commands (appended (l_effects l) (l_effects (button_task False False now l)))
     = [if g_servo_at_target l then 296 else 933]"
    unfolding l_log l_effects_servo_toggle
    by (simp add: appended_def duty_commands_append)
  have l_reps: "report_requests (appended (l_effects l) (l_effects (button_task False False now l)))
     = (if g_zigbee_connected l then [ON_OFF] else [])"
    unfolding l_log l_effects_servo_toggle
    by (simp add: appended_def report_requests_append)
  show ?thesis
    unfolding hb using lightState_toggleLight duty reps l_pos l_duty l_reps by simp
qed

text \<open>
  The hypotheses hold after a confirmed press of the legacy button; the instance is a tap
  with the node not joined, on both variants: the servo goes to the target and nothing
  is reported.
\<close>

theorem tap_toggles_and_reports_iff_joined_witness:
  "btn_pressed (button_task True True 1000000 legacy_booted) \<and>
   \<not> long_press_handled (button_task True True 1000000 legacy_booted) \<and>
   duty_commands (appended (effects (servoInit power_on))
     (effects (handleButton BUTTON_SHORT_PRESS
       \<lparr>now_us = 1200000, button_low = False, zb_connected = False, stack_ret = ESP_OK\<rparr>
       (servoInit power_on)))) = [933] \<and>
   report_requests (appended (effects (servoInit power_on))
     (effects (handleButton BUTTON_SHORT_PRESS
       \<lparr>now_us = 1200000, button_low = False, zb_connected = False, stack_ret = ESP_OK\<rparr>
       (servoInit power_on)))) = [] \<and>
   g_servo_at_target
     (button_task False False 1200000 (button_task True True 1000000 legacy_booted)) \<and>
   duty_commands (appended (l_effects (button_task True True 1000000 legacy_booted))
     (l_effects (button_task False False 1200000
        (button_task True True 1000000 legacy_booted)))) = [933] \<and>
   report_requests (appended (l_effects (button_task True True 1000000 legacy_booted))
     (l_effects (button_task False False 1200000
        (button_task True True 1000000 legacy_booted)))) = []"
proof -
  have pressed: "btn_pressed (button_task True True 1000000 legacy_booted)"
    by (simp add: button_task_def legacy_booted_def)
  have short: "\<not> long_press_handled (button_task True True 1000000 legacy_booted)"
    by (simp add: button_task_def legacy_booted_def)
  have rest: "\<not> g_servo_at_target (button_task True True 1000000 legacy_booted)"
    by (simp add: button_task_def legacy_booted_def)
  have unjoined: "\<not> g_zigbee_connected (button_task True True 1000000 legacy_booted)"
    by (simp add: button_task_def legacy_booted_def)
  have off: "\<not> lightState (servoInit power_on)"
    by (simp add: servo_defs power_on_def)
  note t = tap_toggles_and_reports_iff_joined [OF pressed short,
        of "\<lparr>now_us = 1200000, button_low = False, zb_connected = False, stack_ret = ESP_OK\<rparr>"
           "servoInit power_on" 1200000]
  note duty = t [THEN conjunct2, THEN conjunct2, THEN conjunct1]
  note reps = t [THEN conjunct2, THEN conjunct2, THEN conjunct2, THEN conjunct1]
  note l_pos = t [THEN conjunct2, THEN conjunct2, THEN conjunct2, THEN conjunct2, THEN conjunct1]
  note l_duty = t [THEN conjunct2, THEN conjunct2, THEN conjunct2, THEN conjunct2,
      THEN conjunct2, THEN conjunct1]
  note l_reps = t [THEN conjunct2, THEN conjunct2, THEN conjunct2, THEN conjunct2,
      THEN conjunct2, THEN conjunct2]
  show ?thesis
    unfolding duty reps l_pos l_duty l_reps
    using pressed short rest unjoined off by simp
qed

text \<open>
  C9 fails on \<^verbatim>\<open>main/main.c\<close>. Its button task toggles the servo on a tap and then
  calls \<^verbatim>\<open>report_attribute\<close> without looking at \<open>g_zigbee_connected\<close>, a flag the
  signal handler writes and nothing reads. On a node that never joined (press confirmed
  at 1.0 s, release at 1.2 s) the tap moves the servo to the target and sends the
  on/off report all the same, where a tap on an unjoined node is to toggle and send
  nothing. The legacy firmware tests the flag before it reports.
\<close>

theorem main_tap_reports_while_unjoined:
  "m_zigbee_connected (main_button_task True True 1000 1000 main_booted) = False \<and>
   m_effects (main_button_task False False 1200 1200
      (main_button_task True True 1000 1000 main_booted))
     = [LedcDuty 1024, ZbReportAttrReq ON_OFF] \<and>
   report_requests (m_effects (main_button_task False False 1200 1200
      (main_button_task True True 1000 1000 main_booted))) = [ON_OFF] \<and>
   report_requests (l_effects (button_task False False 1200000
      (button_task True True 1000000 legacy_booted))) = []"
  by (simp add: main_button_task_def main_booted_def set_servo_def main_report_attribute_def
      m_emit_def servo_duty_floor button_task_def legacy_booted_def legacy_servo_defs
      timer_defs report_attribute_def servo_duty_target)

section \<open>C6: the join timeout\<close>

lemma state_ledBlink_ledBlue:
  "pairing (state (ledBlink i ledBlue t s)) = pairing (state s) \<and>
   pairingStartTime (state (ledBlink i ledBlue t s)) = pairingStartTime (state s)"
  by (simp add: ledBlink_def Let_def ledOff_def ledBlue_def ledSetColor_def emit_def)

lemma seeking_within_timeout:
  assumes "pairing (state s) = PAIRING_IN_PROGRESS" "\<not> zb_connected e"
    "\<not> millis e - pairingStartTime (state s) > 40000"
  shows "\<exists>s'. updatePairingState e s = Continues s' \<and>
     pairing (state s') = PAIRING_IN_PROGRESS \<and>
     pairingStartTime (state s') = pairingStartTime (state s)"
  using assms by (simp add: updatePairingState_def Let_def state_ledBlink_ledBlue)

lemma seeking_past_timeout:
  assumes "pairing (state s) = PAIRING_IN_PROGRESS" "\<not> zb_connected e"
    "millis e - pairingStartTime (state s) > 40000"
  shows "updatePairingState e s = Continues (s\<lparr>state := (state s)\<lparr>pairing := PAIRING_FAILED\<rparr>\<rparr>)"
  using assms by (simp add: updatePairingState_def Let_def)

lemma failed_sleeps:
  "pairing (state s) = PAIRING_FAILED \<Longrightarrow>
   updatePairingState e s = Sleeps (enterDeepSleep (ledRed s))"
  by (simp add: updatePairingState_def Let_def)

lemma pairing_trace_failed: "pairing (state s) = PAIRING_FAILED \<Longrightarrow> pairing_trace s es = []"
  by (cases es) (simp_all add: failed_sleeps)

lemma pairing_trace_seeking:
  "pairing (state s) = PAIRING_IN_PROGRESS \<Longrightarrow>
   \<forall>e \<in> set es1. \<not> zb_connected e \<and> \<not> millis e - pairingStartTime (state s) > 40000 \<Longrightarrow>
   \<not> zb_connected e \<Longrightarrow> millis e - pairingStartTime (state s) > 40000 \<Longrightarrow>
   pairing_trace s (es1 @ e # es2) =
     replicate (length es1) PAIRING_IN_PROGRESS @ [PAIRING_FAILED]"
proof (induction es1 arbitrary: s)
  case Nil
  then show ?case
    by (simp add: seeking_past_timeout pairing_trace_failed)
next
  case (Cons a es1)
  from Cons.prems have a: "\<not> zb_connected a" "\<not> millis a - pairingStartTime (state s) > 40000"
    by simp_all
  from seeking_within_timeout [OF Cons.prems(1) a]
  obtain s' where s': "updatePairingState a s = Continues s'"
    "pairing (state s') = PAIRING_IN_PROGRESS"
    "pairingStartTime (state s') = pairingStartTime (state s)"
    by blast
  have "pairing_trace s' (es1 @ e # es2) =
     replicate (length es1) PAIRING_IN_PROGRESS @ [PAIRING_FAILED]"
    using Cons.prems s' by (intro Cons.IH) simp_all
  then show ?case using s' by simp
qed

text \<open>
  The retry the claim speaks of is the stack's: in \<^verbatim>\<open>main/main.c\<close> a failed steering
  attempt schedules the next one a second later and changes nothing else, however often
  it happens. That variant has no join timeout and no failed state; the timeout is the
  sketch's.
\<close>

lemma steering_failure_only_schedules_retry:
  "signal_steering ESP_FAIL m = m_emit [ZbSchedulerAlarm 1000] m"
  by (simp add: signal_steering_def)

text \<open>
  C6. The device is seeking (\<open>PAIRING_IN_PROGRESS\<close>) and stays unconnected. However many
  passes \<open>es1\<close> of the state machine run before the timeout (the stack retries joining
  in the meantime, the state machine keeps no count of that), the first pass \<open>e\<close> that
  finds more than 40000 ms elapsed since the start of seeking moves it to
  \<open>PAIRING_FAILED\<close>, and it enters that state once: every pass before leaves it
  seeking, and the pass after ends in deep sleep, so the passes \<open>es2\<close> that would follow
  never run.
\<close>

theorem join_timeout_fails_exactly_once:
  "pairing (state s) = PAIRING_IN_PROGRESS \<Longrightarrow>
   \<forall>e \<in> set es1. \<not> zb_connected e \<and>
      \<not> millis e - pairingStartTime (state s) > PAIRING_TIMEOUT_MS \<Longrightarrow>
   \<not> zb_connected e \<Longrightarrow> millis e - pairingStartTime (state s) > PAIRING_TIMEOUT_MS \<Longrightarrow>
   pairing_trace s (es1 @ e # es2)
     = replicate (length es1) PAIRING_IN_PROGRESS @ [PAIRING_FAILED] \<and>
   count_list (pairing_trace s (es1 @ e # es2)) PAIRING_FAILED = 1"
proof -
  assume a: "pairing (state s) = PAIRING_IN_PROGRESS"
    "\<forall>e \<in> set es1. \<not> zb_connected e \<and> \<not> millis e - pairingStartTime (state s) > PAIRING_TIMEOUT_MS"
    "\<not> zb_connected e" "millis e - pairingStartTime (state s) > PAIRING_TIMEOUT_MS"
  have tr: "pairing_trace s (es1 @ e # es2)
     = replicate (length es1) PAIRING_IN_PROGRESS @ [PAIRING_FAILED]"
    using a by (rule pairing_trace_seeking)
  have "count_list (replicate n PAIRING_IN_PROGRESS) PAIRING_FAILED = 0" for n
    by (induction n) simp_all
  then show ?thesis unfolding tr by simp
qed

theorem join_timeout_fails_exactly_once_witness:
  "pairing_trace seeking_sketch
     [unjoined_at 10000, unjoined_at 39000, unjoined_at 41000, unjoined_at 43000]
     = [PAIRING_IN_PROGRESS, PAIRING_IN_PROGRESS, PAIRING_FAILED] \<and>
   count_list (pairing_trace seeking_sketch
     [unjoined_at 10000, unjoined_at 39000, unjoined_at 41000, unjoined_at 43000]) PAIRING_FAILED = 1"
proof -
  have s: "pairing (state seeking_sketch) = PAIRING_IN_PROGRESS"
    by (simp add: seeking_sketch_def)
  have before: "\<forall>e \<in> set [unjoined_at 10000, unjoined_at 39000].
      \<not> zb_connected e \<and> \<not> millis e - pairingStartTime (state seeking_sketch) > PAIRING_TIMEOUT_MS"
    by (simp add: unjoined_at_def millis_def seeking_sketch_def power_on_def)
  have unj: "\<not> zb_connected (unjoined_at 41000)"
    by (simp add: unjoined_at_def)
  have late: "millis (unjoined_at 41000) - pairingStartTime (state seeking_sketch) > PAIRING_TIMEOUT_MS"
    by (simp add: unjoined_at_def millis_def seeking_sketch_def power_on_def)
  show ?thesis
    using join_timeout_fails_exactly_once [OF s before unj late, of "[unjoined_at 43000]"]
    by simp
qed

section \<open>C7: waking up\<close>

text \<open>
  The hold loop of \<^verbatim>\<open>handleWakeup\<close> returns from inside exactly when the pin reads low
  at all of its first 61 readings (the 61st comes 3000 ms after the first, and the wait
  that follows it takes the time held past the threshold).
\<close>

lemma wake_hold_loop_from:
  "i \<le> 60 \<Longrightarrow> wake_hold_loop low i p (p + 50 * i) = (\<forall>j \<in> {i..60}. low j)"
proof (induction "60 - i" arbitrary: i)
  case 0
  then have i: "i = 60" by simp
  have "wake_hold_loop low 60 p (p + 3000) = low 60"
    by (subst wake_hold_loop.simps) simp
  then show ?case using i by simp
next
  case (Suc n)
  then have i: "i < 60" and n: "n = 60 - Suc i" by simp_all
  have step: "wake_hold_loop low i p (p + 50 * i) =
      (low i \<and> wake_hold_loop low (Suc i) p (p + 50 * Suc i))"
    using i by (subst wake_hold_loop.simps) (simp add: ac_simps)
  have ih: "wake_hold_loop low (Suc i) p (p + 50 * Suc i) = (\<forall>j \<in> {Suc i..60}. low j)"
    using Suc.hyps(1) [OF n] i by simp
  have "{i..60} = insert i {Suc i..60}"
    using i by (intro Icc_eq_insert_lb_nat) simp
  then show ?case using step ih by simp
qed

lemma wake_hold_loop_long_press:
  "wake_hold_loop low 0 t t = (\<forall>j\<le>60. low j)"
  using wake_hold_loop_from [of 0 low t] by (simp add: Ball_def)

lemma pairing_emit: "pairing (state (emit es s)) = pairing (state s)"
  by (simp add: emit_def)

lemma pairing_servoRest: "pairing (state (servoRest s)) = pairing (state s)"
  by (simp add: servo_defs split: option.splits)

lemma pairing_enterDeepSleep: "pairing (state (enterDeepSleep s)) = pairing (state s)"
  by (simp add: enterDeepSleep_def pairing_emit pairing_servoRest ledOff_def ledSetColor_def)

lemma pairing_servoInit_ledOff: "pairing (state (servoInit (ledOff s))) = pairing (state s)"
  by (simp add: servoInit_def servoSetAngle_def ledOff_def ledSetColor_def emit_def)

lemma state_reportLightState: "state (reportLightState e s) = state s"
  by (simp add: reportLightState_def reportOnOff_def reportLevel_def emit_def Let_def)

lemma state_setupReporting: "state (setupReporting e s) = state s"
  by (simp add: setupReporting_def setupOnOffReporting_def setupLevelReporting_def emit_def
      Let_def)

text \<open>
  C7, as stated, fails. A boot that is no wake-up from deep sleep (power-on: the wake
  cause is undefined) with the button never pressed is not a qualifying long hold, yet
  \<^verbatim>\<open>setup()\<close> goes on and, the node not being joined, starts in \<open>PAIRING_IN_PROGRESS\<close>.
\<close>

theorem power_on_boot_seeks_without_hold:
  "map_outcome (\<lambda>s. pairing (state s))
     (setup_sketch ESP_SLEEP_WAKEUP_UNDEFINED (\<lambda>i. False) 0 True (unjoined_at 600) power_on)
   = Continues PAIRING_IN_PROGRESS"
  by (simp add: setup_sketch_def handleWakeup_def Let_def unjoined_at_def)

text \<open>
  C7, amended. After a wake-up by the button (GPIO wake cause), \<^verbatim>\<open>setup()\<close> ends in deep
  sleep, the pairing state untouched, whenever the pin reads high at one of the first 61
  readings of the hold loop, that is, whenever the button is let go before it was held
  for more than 3000 ms; seeking is never entered. After a GPIO wake with the button held
  throughout, and after every boot with another wake cause (power-on, reset), \<^verbatim>\<open>setup()\<close>
  goes on: it restarts when \<^verbatim>\<open>Zigbee.begin()\<close> fails, and otherwise starts in
  \<open>PAIRING_IDLE\<close> when the node is connected and in \<open>PAIRING_IN_PROGRESS\<close> when it is
  not.
\<close>

theorem wake_without_long_hold_sleeps_again:
  "map_outcome (\<lambda>s. pairing (state s)) (setup_sketch reason low t begin_ok e s) =
     (if reason = ESP_SLEEP_WAKEUP_GPIO \<and> (\<exists>i\<le>60. \<not> low i)
      then Sleeps (pairing (state s))
      else if \<not> begin_ok then Restarts (pairing (state s))
      else Continues (if zb_connected e then PAIRING_IDLE else PAIRING_IN_PROGRESS))"
proof (cases "reason = ESP_SLEEP_WAKEUP_GPIO \<and> (\<exists>i\<le>60. \<not> low i)")
  case True
  then have "\<not> wake_hold_loop low 0 t t"
    by (simp add: wake_hold_loop_long_press)
  with True show ?thesis
    by (simp add: setup_sketch_def handleWakeup_def Let_def pairing_enterDeepSleep
        pairing_servoInit_ledOff)
next
  case False
  then have go: "handleWakeup reason low t (servoInit (ledOff s))
      = Continues (True, servoInit (ledOff s))"
    by (auto simp add: handleWakeup_def wake_hold_loop_long_press)
  show ?thesis
    using False
    by (simp add: setup_sketch_def go Let_def pairing_servoInit_ledOff
        state_reportLightState state_setupReporting)
qed

text \<open>
  Two instances: a wake-up by a press let go after three readings (150 ms) sleeps again
  with the pairing state as it was; a wake-up by a press held throughout starts seeking.
\<close>

theorem wake_without_long_hold_sleeps_again_witness:
  "map_outcome (\<lambda>s. pairing (state s))
     (setup_sketch ESP_SLEEP_WAKEUP_GPIO (\<lambda>i. i < 3) 0 True (unjoined_at 600) power_on)
   = Sleeps PAIRING_IDLE \<and>
   map_outcome (\<lambda>s. pairing (state s))
     (setup_sketch ESP_SLEEP_WAKEUP_GPIO (\<lambda>i. True) 0 True (unjoined_at 3600) power_on)
   = Continues PAIRING_IN_PROGRESS"
proof -
  have let_go: "\<exists>i\<le>60. \<not> (i::nat) < 3" by (rule exI [of _ 3]) simp
  have short: "map_outcome (\<lambda>s. pairing (state s))
     (setup_sketch ESP_SLEEP_WAKEUP_GPIO (\<lambda>i. i < 3) 0 True (unjoined_at 600) power_on)
   = Sleeps PAIRING_IDLE"
    using let_go
    by (simp add: wake_without_long_hold_sleeps_again power_on_def)
  have long: "map_outcome (\<lambda>s. pairing (state s))
     (setup_sketch ESP_SLEEP_WAKEUP_GPIO (\<lambda>i. True) 0 True (unjoined_at 3600) power_on)
   = Continues PAIRING_IN_PROGRESS"
    by (simp add: wake_without_long_hold_sleeps_again unjoined_at_def)
  show ?thesis using short long by simp
qed

section \<open>C8: reports and the stack lock\<close>

lemma lock_run_append:
  "lock_run ph (xs @ ys) =
     (case lock_run ph xs of None \<Rightarrow> None | Some ph' \<Rightarrow> lock_run ph' ys)"
  by (induction xs arbitrary: ph) (simp_all split: option.splits)

lemma lock_scoped_append: "lock_scoped xs \<Longrightarrow> lock_scoped ys \<Longrightarrow> lock_scoped (xs @ ys)"
  by (simp add: lock_scoped_def lock_run_append)

lemma extends_scoped_iff:
  "extends_scoped old new = (\<exists>es. new = old @ es \<and> lock_scoped es)"
proof
  assume "extends_scoped old new"
  then have "new = old @ drop (length old) new" "lock_scoped (drop (length old) new)"
    by (simp_all add: extends_scoped_def appended_def) (metis append_take_drop_id)
  then show "\<exists>es. new = old @ es \<and> lock_scoped es" by blast
next
  assume "\<exists>es. new = old @ es \<and> lock_scoped es"
  then show "extends_scoped old new"
    by (auto simp add: extends_scoped_def appended_def)
qed

lemma extends_scoped_refl: "extends_scoped xs xs"
  by (simp add: extends_scoped_iff lock_scoped_def)

lemma extends_scoped_trans:
  "extends_scoped xs ys \<Longrightarrow> extends_scoped ys zs \<Longrightarrow> extends_scoped xs zs"
  by (auto simp add: extends_scoped_iff intro: lock_scoped_append)

lemma extends_scoped_app: "lock_scoped es \<Longrightarrow> extends_scoped xs (xs @ es)"
  by (auto simp add: extends_scoped_iff)

lemma extends_scoped_lock_scoped:
  "lock_scoped old \<Longrightarrow> extends_scoped old new \<Longrightarrow> lock_scoped new"
  by (auto simp add: extends_scoped_iff intro: lock_scoped_append)

lemma scoped_servoRest: "extends_scoped (effects s) (effects (servoRest s))"
  unfolding effects_servoRest by (rule extends_scoped_app) (simp add: lock_scoped_def)

lemma scoped_servoPlay: "extends_scoped (effects s) (effects (servoPlay now s))"
  unfolding effects_servoPlay by (rule extends_scoped_app) (simp add: lock_scoped_def)

lemma scoped_reportLightState: "extends_scoped (effects s) (effects (reportLightState e s))"
  unfolding effects_reportLightState by (rule extends_scoped_app) (simp add: lock_scoped_def)

lemma scoped_turnLightOff: "extends_scoped (effects s) (effects (turnLightOff e s))"
  unfolding effects_turnLightOff by (rule extends_scoped_app) (simp add: lock_scoped_def)

lemma scoped_turnLightOn: "extends_scoped (effects s) (effects (turnLightOn e s))"
  unfolding effects_turnLightOn by (rule extends_scoped_app) (simp add: lock_scoped_def)

lemma effects_setupReporting:
  "effects (setupReporting e s) =
     effects s @ [ZbLockAcquire, ZbUpdateReportingInfo ON_OFF, ZbLockRelease,
                  ZbLockAcquire, ZbUpdateReportingInfo LEVEL_CONTROL, ZbLockRelease]"
  by (simp add: setupReporting_def setupOnOffReporting_def setupLevelReporting_def emit_def
      Let_def)

lemma scoped_setupReporting: "extends_scoped (effects s) (effects (setupReporting e s))"
  unfolding effects_setupReporting by (rule extends_scoped_app) (simp add: lock_scoped_def)

lemma scoped_handleButton: "extends_scoped (effects s) (effects (handleButton a e s))"
proof (cases a)
  case BUTTON_NONE
  then show ?thesis by (simp add: handleButton_def extends_scoped_refl)
next
  case BUTTON_SHORT_PRESS
  then show ?thesis
    by (simp add: handleButton_def toggleLight_def scoped_turnLightOff scoped_turnLightOn)
next
  case BUTTON_LONG_PRESS
  have "effects (emit [ZbFactoryReset] (ledRed s)) = effects s @ [RgbLedWrite 255 0 0, ZbFactoryReset]"
    by (simp add: emit_def ledRed_def ledSetColor_def)
  then show ?thesis
    using BUTTON_LONG_PRESS
    by (simp add: handleButton_def extends_scoped_app lock_scoped_def)
qed

lemma scoped_loop_autoReturn: "extends_scoped (effects s) (effects (loop_autoReturn e s))"
proof (cases "servoAutoReturnPending s")
  case True
  have "extends_scoped (effects (s\<lparr>servoAutoReturnPending := False\<rparr>))
      (effects (turnLightOff e (s\<lparr>servoAutoReturnPending := False\<rparr>)))"
    by (rule scoped_turnLightOff)
  with True show ?thesis by (simp add: loop_autoReturn_def)
next
  case False
  then show ?thesis by (simp add: loop_autoReturn_def extends_scoped_refl)
qed

lemma scoped_loop_button: "extends_scoped (effects s) (effects (loop_button e s))"
proof -
  obtain a b where ab: "checkButton (button_low e) (millis e) (button s) = (a, b)"
    by (cases "checkButton (button_low e) (millis e) (button s)")
  have "extends_scoped (effects (s\<lparr>button := b\<rparr>)) (effects (handleButton a e (s\<lparr>button := b\<rparr>)))"
    by (rule scoped_handleButton)
  then show ?thesis
    by (simp add: loop_button_def ab Let_def extends_scoped_refl)
qed

lemma effects_ledBlink_ledBlue:
  "effects (ledBlink i ledBlue t s) =
     effects s @
       (if t - lastLedToggle (state s) \<ge> i
        then [if ledBlinkOn (state s) then RgbLedWrite 0 0 0 else RgbLedWrite 0 0 255]
        else [])"
  by (simp add: ledBlink_def Let_def ledOff_def ledBlue_def ledSetColor_def emit_def)

lemma effects_enterDeepSleep:
  "effects (enterDeepSleep s) =
     effects s @ [RgbLedWrite 0 0 0] @ (if servoTimer s = None then [] else [TimerStop]) @
       [LedcDuty 296, GpioWakeupEnable, DeepSleepStart]"
  by (simp add: enterDeepSleep_def effects_servoRest ledOff_def ledSetColor_def emit_def)

lemma scoped_updatePairingState:
  "extends_scoped (effects s) (effects (final (updatePairingState e s)))"
proof (cases "pairing (state s)")
  case PAIRING_IDLE
  then show ?thesis
    by (simp add: updatePairingState_def Let_def extends_scoped_refl)
next
  case PAIRING_IN_PROGRESS
  show ?thesis
  proof (cases "zb_connected e")
    case True
    have "effects (final (updatePairingState e s)) =
        effects s @ [ZbLockAcquire, ZbUpdateReportingInfo ON_OFF, ZbLockRelease,
          ZbLockAcquire, ZbUpdateReportingInfo LEVEL_CONTROL, ZbLockRelease, ZbRestoreLight,
          ZbLockAcquire, ZbReportAttrReq ON_OFF, ZbLockRelease,
          ZbLockAcquire, ZbReportAttrReq LEVEL_CONTROL, ZbLockRelease]"
      using True PAIRING_IN_PROGRESS
      by (simp add: updatePairingState_def Let_def effects_reportLightState
          effects_setupReporting emit_def)
    then show ?thesis
      by (simp add: extends_scoped_app lock_scoped_def)
  next
    case False
    have "effects (final (updatePairingState e s)) = effects s \<or>
        effects (final (updatePairingState e s)) = effects (ledBlink 500 ledBlue (millis e) s)"
      using False PAIRING_IN_PROGRESS
      by (simp add: updatePairingState_def Let_def)
    then show ?thesis
      by (auto simp add: effects_ledBlink_ledBlue extends_scoped_refl extends_scoped_app
          lock_scoped_def)
  qed
next
  case PAIRING_FAILED
  have "effects (final (updatePairingState e s)) =
      effects s @ [RgbLedWrite 255 0 0, RgbLedWrite 0 0 0] @
        (if servoTimer s = None then [] else [TimerStop]) @
        [LedcDuty 296, GpioWakeupEnable, DeepSleepStart]"
    using PAIRING_FAILED
    by (simp add: updatePairingState_def Let_def effects_enterDeepSleep ledRed_def
        ledSetColor_def emit_def)
  then show ?thesis
    by (simp add: extends_scoped_app lock_scoped_def)
qed

lemma scoped_loop: "extends_scoped (effects s) (effects (final (loop e s)))"
  unfolding loop_def
  by (blast intro: extends_scoped_trans scoped_loop_autoReturn scoped_loop_button
      scoped_updatePairingState)

text \<open>
  The sketch \<^verbatim>\<open>zigbee_switch.ino\<close> does what the other two variants miss: every request
  into the network stack is made inside its own scoped region. Each of the four
  requesting functions acquires the lock, makes its one request and releases the lock,
  whatever code the stack returns (the error path only differs in the function's
  result). Hence a pass of \<^verbatim>\<open>loop()\<close>, however it ends, continues a log that keeps the
  discipline with one that keeps it: no report leaves the sketch with the lock free,
  held twice or left held.
\<close>

theorem sketch_reports_inside_lock_region:
  "lock_scoped (effects s) \<Longrightarrow>
   appended (effects s) (effects (snd (reportOnOff ret s)))
     = [ZbLockAcquire, ZbReportAttrReq ON_OFF, ZbLockRelease] \<and>
   appended (effects s) (effects (snd (reportLevel ret s)))
     = [ZbLockAcquire, ZbReportAttrReq LEVEL_CONTROL, ZbLockRelease] \<and>
   appended (effects s) (effects (snd (setupOnOffReporting ret s)))
     = [ZbLockAcquire, ZbUpdateReportingInfo ON_OFF, ZbLockRelease] \<and>
   appended (effects s) (effects (snd (setupLevelReporting ret s)))
     = [ZbLockAcquire, ZbUpdateReportingInfo LEVEL_CONTROL, ZbLockRelease] \<and>
   fst (reportOnOff ret s) = (ret = ESP_OK) \<and>
   lock_scoped (effects (reportLightState e s)) \<and>
   lock_scoped (effects (final (loop e s)))"
proof -
  assume inv: "lock_scoped (effects s)"
  have one: "appended (effects s) (effects (snd (reportOnOff ret s)))
      = [ZbLockAcquire, ZbReportAttrReq ON_OFF, ZbLockRelease]"
    "appended (effects s) (effects (snd (reportLevel ret s)))
      = [ZbLockAcquire, ZbReportAttrReq LEVEL_CONTROL, ZbLockRelease]"
    "appended (effects s) (effects (snd (setupOnOffReporting ret s)))
      = [ZbLockAcquire, ZbUpdateReportingInfo ON_OFF, ZbLockRelease]"
    "appended (effects s) (effects (snd (setupLevelReporting ret s)))
      = [ZbLockAcquire, ZbUpdateReportingInfo LEVEL_CONTROL, ZbLockRelease]"
    "fst (reportOnOff ret s) = (ret = ESP_OK)"
    by (simp_all add: reportOnOff_def reportLevel_def setupOnOffReporting_def
        setupLevelReporting_def emit_def Let_def appended_def)
  have rep: "lock_scoped (effects (reportLightState e s))"
    using inv scoped_reportLightState by (rule extends_scoped_lock_scoped)
  have lp: "lock_scoped (effects (final (loop e s)))"
    using inv scoped_loop by (rule extends_scoped_lock_scoped)
  show ?thesis using one rep lp by simp
qed

text \<open>
  An instance: a connected sketch whose auto-return flag is up runs one pass of the
  loop; the release is reported (on/off, then level), each report in its own region.
\<close>

theorem sketch_reports_inside_lock_region_witness:
  "lock_scoped (effects (servoReturnCallback (servoInit power_on))) \<and>
   report_requests (effects (final (loop
       \<lparr>now_us = 5000000, button_low = False, zb_connected = True, stack_ret = ESP_FAIL\<rparr>
       (servoReturnCallback (servoInit power_on))))) = [ON_OFF, LEVEL_CONTROL] \<and>
   lock_scoped (effects (final (loop
       \<lparr>now_us = 5000000, button_low = False, zb_connected = True, stack_ret = ESP_FAIL\<rparr>
       (servoReturnCallback (servoInit power_on)))))"
proof -
  have inv: "lock_scoped (effects (servoReturnCallback (servoInit power_on)))"
    by (simp add: servoReturnCallback_def servo_defs power_on_def lock_scoped_def)
  have reps: "report_requests (effects (final (loop
       \<lparr>now_us = 5000000, button_low = False, zb_connected = True, stack_ret = ESP_FAIL\<rparr>
       (servoReturnCallback (servoInit power_on))))) = [ON_OFF, LEVEL_CONTROL]"
    by (simp add: loop_def loop_autoReturn_def loop_button_def checkButton_def
        updatePairingState_def turnLightOff_def reportLightState_def reportOnOff_def
        reportLevel_def handleButton_def servoReturnCallback_def servo_defs ledOff_def
        ledSetColor_def power_on_def)
  show ?thesis
    using sketch_reports_inside_lock_region [OF inv, of ESP_FAIL
        "\<lparr>now_us = 5000000, button_low = False, zb_connected = True, stack_ret = ESP_FAIL\<rparr>"]
      inv reps
    by simp
qed

text \<open>
  C8 fails on the legacy firmware and on \<^verbatim>\<open>main/main.c\<close>. Their \<^verbatim>\<open>report_attribute\<close>
  hands the report to the stack without taking the lock, from the button task, which is
  not the stack's own task. A tap on a joined node (press confirmed at 1.0 s, release
  confirmed at 1.2 s) makes the button task of either variant send the on/off report
  with the lock free: followed from \<open>Free\<close>, the log of the tap breaks the discipline at
  the report.
\<close>

theorem legacy_report_sent_without_lock:
  "l_effects (button_task False False 1200000
      (button_task True True 1000000 (legacy_booted\<lparr>g_zigbee_connected := True\<rparr>)))
     = [LedcDuty 933, TimerStop, TimerStartOnce 2000000, ZbReportAttrReq ON_OFF] \<and>
   lock_run Free [LedcDuty 933, TimerStop, TimerStartOnce 2000000, ZbReportAttrReq ON_OFF]
     = None \<and>
   m_effects (main_button_task False False 1200 1200
      (main_button_task True True 1000 1000 (main_booted\<lparr>m_zigbee_connected := True\<rparr>)))
     = [LedcDuty 1024, ZbReportAttrReq ON_OFF] \<and>
   lock_run Free [LedcDuty 1024, ZbReportAttrReq ON_OFF] = None"
  by (simp add: button_task_def main_button_task_def legacy_booted_def main_booted_def
      legacy_servo_defs timer_defs report_attribute_def main_report_attribute_def set_servo_def
      m_emit_def servo_duty_target servo_duty_floor)

section \<open>C5: classifying a press\<close>

subsection \<open>The classifier of zigbee\_switch.ino\<close>

lemma poll_all_held_quiet:
  "wasPressed b \<Longrightarrow> \<forall>d \<in> set ds. longPressHandled b \<or> d \<le> 3000 \<Longrightarrow>
   poll_all b (map (\<lambda>d. (True, pressStartTime b + d)) ds @ ps) =
     replicate (length ds) BUTTON_NONE @ poll_all b ps"
proof (induction ds)
  case Nil
  then show ?case by simp
next
  case (Cons d ds)
  then have quiet: "checkButton True (pressStartTime b + d) b = (BUTTON_NONE, b)"
    by (auto simp add: checkButton_def not_less)
  show ?case using Cons by (simp add: quiet)
qed

lemma poll_all_release:
  "wasPressed b \<Longrightarrow>
   poll_all b [(False, pressStartTime b + r)] =
     [if \<not> longPressHandled b \<and> r > 100 then BUTTON_SHORT_PRESS else BUTTON_NONE]"
  by (simp add: checkButton_def Let_def)

lemma poll_all_press_edge:
  "\<not> wasPressed b \<Longrightarrow>
   poll_all b ((True, t0) # ps) =
     BUTTON_NONE #
       poll_all (b\<lparr>pressStartTime := t0, longPressHandled := False, wasPressed := True\<rparr>) ps"
  by (simp add: checkButton_def)

text \<open>
  A press let go within the debounce time gives no event; a press held longer, and never
  seen held for more than 3000 ms, gives one short press, at the release.
\<close>

lemma episode_short_or_none:
  assumes "\<not> wasPressed b" "\<forall>d \<in> set ds. d \<le> 3000"
  shows "poll_all b (episode t0 ds r) =
     replicate (Suc (length ds)) BUTTON_NONE @
       [if r > 100 then BUTTON_SHORT_PRESS else BUTTON_NONE]"
proof -
  let ?b1 = "b\<lparr>pressStartTime := t0, longPressHandled := False, wasPressed := True\<rparr>"
  have held: "poll_all ?b1 (map (\<lambda>d. (True, pressStartTime ?b1 + d)) ds @ [(False, t0 + r)]) =
      replicate (length ds) BUTTON_NONE @ poll_all ?b1 [(False, t0 + r)]"
    using assms(2) by (intro poll_all_held_quiet) simp_all
  have rel: "poll_all ?b1 [(False, pressStartTime ?b1 + r)] =
      [if \<not> longPressHandled ?b1 \<and> r > 100 then BUTTON_SHORT_PRESS else BUTTON_NONE]"
    by (intro poll_all_release) simp
  show ?thesis
    using held rel
    by (simp add: episode_def poll_all_press_edge [OF assms(1)] del: poll_all.simps)
qed

text \<open>
  A press seen held for more than 3000 ms gives one long press, at the first reading
  that finds the threshold passed, and nothing afterwards, the release included.
\<close>

lemma episode_long:
  assumes "\<not> wasPressed b" "\<forall>d \<in> set ds1. d \<le> 3000" "d > 3000"
  shows "poll_all b (episode t0 (ds1 @ d # ds2) r) =
     replicate (Suc (length ds1)) BUTTON_NONE @ [BUTTON_LONG_PRESS] @
       replicate (Suc (length ds2)) BUTTON_NONE"
proof -
  let ?b1 = "b\<lparr>pressStartTime := t0, longPressHandled := False, wasPressed := True\<rparr>"
  let ?b2 = "?b1\<lparr>longPressHandled := True\<rparr>"
  have before: "poll_all ?b1 (map (\<lambda>d. (True, pressStartTime ?b1 + d)) ds1 @
        ((True, t0 + d) # map (\<lambda>d. (True, t0 + d)) ds2 @ [(False, t0 + r)])) =
      replicate (length ds1) BUTTON_NONE @
        poll_all ?b1 ((True, t0 + d) # map (\<lambda>d. (True, t0 + d)) ds2 @ [(False, t0 + r)])"
    using assms(2) by (intro poll_all_held_quiet) simp_all
  have poll_all_crossing: "poll_all ?b1 ((True, t0 + d) # ps) = BUTTON_LONG_PRESS # poll_all ?b2 ps"
    for ps
    using assms(3) by (simp add: checkButton_def)
  have after: "poll_all ?b2 (map (\<lambda>d. (True, pressStartTime ?b2 + d)) ds2 @ [(False, t0 + r)]) =
      replicate (length ds2) BUTTON_NONE @ poll_all ?b2 [(False, t0 + r)]"
    by (intro poll_all_held_quiet) simp_all
  have rel: "poll_all ?b2 [(False, pressStartTime ?b2 + r)] =
      [if \<not> longPressHandled ?b2 \<and> r > 100 then BUTTON_SHORT_PRESS else BUTTON_NONE]"
    by (intro poll_all_release) simp
  have "replicate (length ds2) BUTTON_NONE @ [BUTTON_NONE] =
      replicate (Suc (length ds2)) BUTTON_NONE"
    by (simp add: replicate_append_same)
  then show ?thesis
    using before after rel
    by (simp add: episode_def poll_all_press_edge [OF assms(1)] poll_all_crossing
        del: poll_all.simps)
qed

subsection \<open>The button task of the legacy firmware\<close>

text \<open>
  A reading that finds the button down and a second reading, after the debounce wait,
  that finds it up again: the legacy task changes nothing, and the round that then finds
  the button up has nothing to release.
\<close>

lemma legacy_glitch_ignored:
  "\<not> btn_pressed l \<Longrightarrow>
   button_task True False now l = l \<and> button_task False low2 now' l = l"
  by (simp add: button_task_def)

subsection \<open>The button task of main/main.c\<close>

text \<open>
  C5 fails on \<^verbatim>\<open>main/main.c\<close>. Five seconds after boot the button reads down at the
  start of a round and up again after the 50 ms debounce wait, so the press is not
  confirmed and \<open>press_start\<close> stays 0. The holding check of the same round still runs
  on the first reading: it finds the time since 0 above 3000 ms, shows the reset warning
  and marks the press handled. The next round finds the button up and, the press being
  marked, resets the device to factory state. A contact shorter than the debounce time
  is classified as a long press.
\<close>

theorem main_glitch_taken_for_long_press:
  "m_led_state (main_button_task True False 5050 5050 main_booted) = LED_RESET_WARN \<and>
   handled (main_button_task True False 5050 5050 main_booted) \<and>
   press_start (main_button_task True False 5050 5050 main_booted) = 0 \<and>
   m_effects (main_button_task False False 5100 5100
     (main_button_task True False 5050 5050 main_booted)) = [ZbFactoryReset]"
  by (simp add: main_button_task_def main_booted_def m_emit_def)

end
